theory Spec2Isabelle
  imports Complex_Main "HOL-Library.Code_Target_Nat"
begin

section \<open>Python values and dictionaries\<close>

text \<open>
  The client is dynamically typed: one value space covers everything that flows
  through the adapted rows, the keyword arguments and the decoded token.

  A text (\<open>str\<close>) is represented by the bytes of its UTF-8 encoding, a lone
  surrogate by the three bytes the same scheme gives it; so an ASCII text is its own
  representation and the quotes, braces and digits the code looks for are single
  characters. A \<open>bytes\<close> object is the list of its bytes.

  A float is represented by a real number that it is the nearest float to; no float
  arithmetic is performed anywhere in the modelled code. \<open>PNaN\<close> and \<open>PInf\<close> are the
  floats that are not numbers (\<open>PInf True\<close> is the negative infinity).

  A dictionary is an association list in insertion order with distinct keys, as a
  Python \<open>dict\<close> is. A function or class object passed as an argument is represented
  by its name.
\<close>

datatype pyval =
    PNone
  | PBool bool
  | PInt int
  | PFloat real
  | PNaN
  | PInf bool
  | PStr string
  | PBytes string
  | PList "pyval list"
  | PTuple "pyval list"
  | PDict "(string \<times> pyval) list"
  | PCallable string

type_synonym pydict = "(string \<times> pyval) list"

text \<open>\<open>d[k] = v\<close>: an existing key keeps its position, a new key is appended.\<close>

fun setitem :: "string \<Rightarrow> pyval \<Rightarrow> pydict \<Rightarrow> pydict" where
  "setitem k v [] = [(k, v)]"
| "setitem k v ((k', v') # d) = (if k' = k then (k, v) # d else (k', v') # setitem k v d)"

text \<open>\<open>d.get(k)\<close>: the value, or \<open>None\<close> for a missing key.\<close>

definition dict_get :: "pydict \<Rightarrow> string \<Rightarrow> pyval" where
  "dict_get d k = (case map_of d k of None \<Rightarrow> PNone | Some v \<Rightarrow> v)"

text \<open>The exceptions the modelled code can raise, and a marker for inputs whose Python
  behaviour the model does not cover.\<close>

datatype error =
    TypeError
  | ValueError
  | KeyError string
  | IndexError
  | Base64Error
  | UnicodeDecodeError
  | UnicodeEncodeError
  | JSONDecodeError
  | DeserializationError
  | Unmodelled

section \<open>Result-row adapter\<close>

text \<open>
  \<open>convert_search_result\<close> binds \<open>ret\<close> to the row's \<open>additional_properties\<close>
  object itself and assigns two items on it. Whether the caller can observe that
  depends on aliasing, so dictionaries live in a store and a row holds the address
  of its field bag. A row that came without document fields has
  \<open>additional_properties = None\<close>; the first item assignment on \<open>None\<close> raises
  \<open>TypeError\<close>. The attributes \<open>score\<close> and \<open>highlights\<close> are \<open>None\<close> when the
  service sent none.
\<close>

type_synonym addr = nat
type_synonym store = "addr \<Rightarrow> pydict"

record search_result =
  additional_properties :: "addr option"
  score :: "real option"
  highlights :: "(string \<times> string list) list option"

definition py_of_score :: "real option \<Rightarrow> pyval" where
  "py_of_score s = (case s of None \<Rightarrow> PNone | Some x \<Rightarrow> PFloat x)"

definition py_of_highlights :: "(string \<times> string list) list option \<Rightarrow> pyval" where
  "py_of_highlights h =
     (case h of None \<Rightarrow> PNone
      | Some kvs \<Rightarrow> PDict (map (\<lambda>(k, snippets). (k, PList (map PStr snippets))) kvs))"

definition convert_search_result :: "store \<Rightarrow> search_result \<Rightarrow> (error + addr) \<times> store" where
  "convert_search_result st result =
     (case additional_properties result of
        None \<Rightarrow> (Inl TypeError, st)
      | Some ret \<Rightarrow>
          (let st1 = st(ret := setitem ''@search.score'' (py_of_score (score result)) (st ret));
               st2 = st1(ret := setitem ''@search.highlights''
                                   (py_of_highlights (highlights result)) (st1 ret))
           in (Inr ret, st2)))"

text \<open>The row of the specification's example, with its field bag at address 0.\<close>

definition example_store :: store where
  "example_store = (\<lambda>_. [])(0 := [(''id'', PStr ''1'')])"

definition example_row :: search_result where
  "example_row = \<lparr> additional_properties = Some 0, score = Some 3.5,
                   highlights = Some [(''title'', [''foo''])] \<rparr>"




section \<open>OData escaping helper\<close>

text \<open>
  \<open>odata(statement, **kwargs)\<close> copies the keyword arguments, rewrites the entries
  whose value is a string, and hands the result to \<open>str.format\<close>.
\<close>

definition quote :: char where
  "quote = CHR 0x27"

text \<open>\<open>value.replace("'", "''")\<close>.\<close>

definition replace_quote :: "string \<Rightarrow> string" where
  "replace_quote s = concat (map (\<lambda>c. if c = quote then [quote, quote] else [c]) s)"

text \<open>\<open>sub in s\<close> on strings.\<close>

fun starts_with :: "string \<Rightarrow> string \<Rightarrow> bool" where
  "starts_with [] s = True"
| "starts_with (a # sub) [] = False"
| "starts_with (a # sub) (c # s) = (a = c \<and> starts_with sub s)"

fun contains :: "string \<Rightarrow> string \<Rightarrow> bool" where
  "contains sub [] = (sub = [])"
| "contains sub (c # s) = (starts_with sub (c # s) \<or> contains sub s)"

text \<open>\<open>"'{{{}}}'".format(key)\<close>: the placeholder of \<open>key\<close> between single quotes.\<close>

definition quoted_placeholder :: "string \<Rightarrow> string" where
  "quoted_placeholder key = [quote, CHR ''{''] @ key @ [CHR ''}'', quote]"

text \<open>
  One turn of the loop \<open>for key in kw\<close>. The escaped text is bound to the local
  \<open>value\<close>; the dictionary is written only inside the inner \<open>if\<close>.
\<close>

definition odata_step :: "string \<Rightarrow> pydict \<Rightarrow> string \<Rightarrow> pydict" where
  "odata_step statement kw key =
     (case dict_get kw key of
        PStr v \<Rightarrow>
          (let v' = replace_quote v
           in if \<not> contains (quoted_placeholder key) statement
              then setitem key (PStr ([quote] @ v' @ [quote])) kw
              else kw)
      | _ \<Rightarrow> kw)"

definition odata_kw :: "string \<Rightarrow> pydict \<Rightarrow> pydict" where
  "odata_kw statement kwargs = foldl (odata_step statement) kwargs (map fst kwargs)"

text \<open>What the loop leaves under a key whose value was \<open>v\<close> (used to state the loop's effect).\<close>

definition odata_entry :: "string \<Rightarrow> string \<Rightarrow> pyval \<Rightarrow> pyval" where
  "odata_entry statement key v =
     (case v of
        PStr s \<Rightarrow> if contains (quoted_placeholder key) statement then PStr s
                  else PStr ([quote] @ replace_quote s @ [quote])
      | _ \<Rightarrow> v)"

subsection \<open>\<open>str.format\<close> with keyword arguments\<close>

text \<open>Decimal text of an integer, as \<open>str\<close> gives it.\<close>

definition digit_char :: "nat \<Rightarrow> char" where
  "digit_char d = char_of (48 + d)"

function str_nat :: "nat \<Rightarrow> string" where
  "str_nat n = (if n < 10 then [digit_char n] else str_nat (n div 10) @ [digit_char (n mod 10)])"
  by pat_completeness auto
termination
  by (relation "measure id") auto

declare str_nat.simps [simp del]

definition str_int :: "int \<Rightarrow> string" where
  "str_int i = (if i < 0 then CHR ''-'' # str_nat (nat (- i)) else str_nat (nat i))"

text \<open>
  The text \<open>format\<close> substitutes for a value under an empty format specification.
  Floats and containers are outside the model.
\<close>

fun format_value :: "pyval \<Rightarrow> error + string" where
  "format_value (PStr s) = Inr s"
| "format_value (PInt i) = Inr (str_int i)"
| "format_value (PBool b) = Inr (if b then ''True'' else ''False'')"
| "format_value PNone = Inr ''None''"
| "format_value _ = Inl Unmodelled"

text \<open>
  A replacement field \<open>{name}\<close>. With no positional arguments an empty or numeric
  name raises \<open>IndexError\<close>, a name that is not a keyword raises \<open>KeyError\<close>.
  Conversions (\<open>!r\<close>), format specifications (\<open>:>5\<close>), attribute and index access
  are outside the model.
\<close>

definition is_digit :: "char \<Rightarrow> bool" where
  "is_digit c = (48 \<le> (of_char c :: nat) \<and> (of_char c :: nat) \<le> 57)"

definition format_field :: "pydict \<Rightarrow> string \<Rightarrow> error + string" where
  "format_field kw name =
     (if \<exists>c \<in> set name. c \<in> set ''!:.[]'' then Inl Unmodelled
      else if list_all is_digit name then Inl IndexError
      else (case map_of kw name of
              None \<Rightarrow> Inl (KeyError name)
            | Some v \<Rightarrow> format_value v))"

definition prepend :: "string \<Rightarrow> error + string \<Rightarrow> error + string" where
  "prepend s r = (case r of Inl e \<Rightarrow> Inl e | Inr t \<Rightarrow> Inr (s @ t))"

text \<open>
  The scanner of \<open>str.format\<close>, left to right. The second argument is \<open>None\<close> in
  literal text and holds the field name read so far (reversed) inside braces.
  \<open>{{\<close> and \<open>}}\<close> are literal braces; a single \<open>}\<close> in literal text and an unclosed
  \<open>{\<close> raise \<open>ValueError\<close>.
\<close>

fun format_scan :: "pydict \<Rightarrow> string option \<Rightarrow> string \<Rightarrow> error + string" where
  "format_scan kw None [] = Inr []"
| "format_scan kw (Some f) [] = Inl ValueError"
| "format_scan kw None (c # cs) =
     (if c = CHR ''{'' then
        (case cs of
           c' # cs' \<Rightarrow> if c' = CHR ''{'' then prepend ''{'' (format_scan kw None cs')
                       else format_scan kw (Some []) cs
         | [] \<Rightarrow> Inl ValueError)
      else if c = CHR ''}'' then
        (case cs of
           c' # cs' \<Rightarrow> if c' = CHR ''}'' then prepend ''}'' (format_scan kw None cs')
                       else Inl ValueError
         | [] \<Rightarrow> Inl ValueError)
      else prepend [c] (format_scan kw None cs))"
| "format_scan kw (Some f) (c # cs) =
     (if c = CHR ''}'' then
        (case format_field kw (rev f) of
           Inl e \<Rightarrow> Inl e
         | Inr s \<Rightarrow> prepend s (format_scan kw None cs))
      else if c = CHR ''{'' then Inl Unmodelled
      else format_scan kw (Some (c # f)) cs)"

definition str_format :: "string \<Rightarrow> pydict \<Rightarrow> error + string" where
  "str_format statement kw = format_scan kw None statement"

definition odata :: "string \<Rightarrow> pydict \<Rightarrow> error + string" where
  "odata statement kwargs = str_format statement (odata_kw statement kwargs)"

section \<open>Index client facade\<close>

text \<open>
  Each public operation is modelled up to and including the call it makes on the
  generated client (\<open>self._client.documents\<close>), the transport collaborator. The calls
  are appended to a log, so that "no call was made" is a statement about the log.
  What the operations do with the response afterwards is not part of the model.

  A call is recorded with its operation, the request object it was given and the
  keyword arguments it was given.
\<close>

datatype transport_call =
    Count pydict
  | Get string pyval pydict
  | SearchPost pydict pydict
  | SuggestPost pydict pydict
  | AutocompletePost pydict pydict
  | Index "(string \<times> pydict) list" pydict

text \<open>The keyword arguments a recorded call carries.\<close>

fun call_kwargs :: "transport_call \<Rightarrow> pydict" where
  "call_kwargs (Count kw) = kw"
| "call_kwargs (Get key selected_fields kw) = kw"
| "call_kwargs (SearchPost request kw) = kw"
| "call_kwargs (SuggestPost request kw) = kw"
| "call_kwargs (AutocompletePost request kw) = kw"
| "call_kwargs (Index actions kw) = kw"

text \<open>
  The \<open>query\<close> argument is dynamically typed. The three query classes live in
  \<open>_queries.py\<close>, which is not among the sources; each is represented by the
  \<open>request\<close> payload it wraps.
\<close>

datatype query_arg =
    QStr string
  | QSearchQuery pydict
  | QSuggestQuery pydict
  | QAutocompleteQuery pydict
  | QOther pyval

text \<open>
  Modelled from the spec: the constructor \<open>SearchQuery(search_text=...)\<close> of the
  missing \<open>_queries.py\<close>. A query built from a plain string carries the search text
  only.
\<close>

definition SearchQuery :: "string \<Rightarrow> pydict" where
  "SearchQuery search_text = [(''search_text'', PStr search_text)]"

text \<open>
  \<open>_merge_client_headers\<close> comes from \<open>HeadersMixin\<close> (\<open>_headers_mixin.py\<close>, not among
  the sources). The operations take it as the parameter \<open>mch\<close>: a function from the
  value of \<open>kwargs.get("headers")\<close> to the merged headers.
\<close>

type_synonym merge_headers = "pyval \<Rightarrow> pyval"

text \<open>\<open>kwargs["headers"] = self._merge_client_headers(kwargs.get("headers"))\<close>.\<close>

definition with_merged_headers :: "merge_headers \<Rightarrow> pydict \<Rightarrow> pydict" where
  "with_merged_headers mch kwargs = setitem ''headers'' (mch (dict_get kwargs ''headers'')) kwargs"

type_synonym 'a facade_result = "(error + 'a) \<times> transport_call list"

definition get_document_count ::
  "merge_headers \<Rightarrow> pydict \<Rightarrow> transport_call list \<Rightarrow> unit facade_result" where
  "get_document_count mch kwargs calls =
     (let kwargs = with_merged_headers mch kwargs
      in (Inr (), calls @ [Count kwargs]))"

definition get_document ::
  "merge_headers \<Rightarrow> string \<Rightarrow> pyval \<Rightarrow> pydict \<Rightarrow> transport_call list \<Rightarrow> unit facade_result" where
  "get_document mch key selected_fields kwargs calls =
     (let kwargs = with_merged_headers mch kwargs
      in (Inr (), calls @ [Get key selected_fields kwargs]))"

text \<open>
  \<open>search\<close>: the type guard, then the header merge into \<open>kwargs\<close>, then
  \<open>search_post(query.request, extract_data=..., unpack_next_link=...,
  item_paged=SearchItemPaged)\<close>. The call lists its keyword arguments one by one and
  does not pass \<open>**kwargs\<close>.
\<close>

definition search_post_kwargs :: pydict where
  "search_post_kwargs =
     [(''extract_data'', PCallable ''_extract_data_cb''),
      (''unpack_next_link'', PCallable ''_unpack_next_link''),
      (''item_paged'', PCallable ''SearchItemPaged'')]"

definition search ::
  "merge_headers \<Rightarrow> query_arg \<Rightarrow> pydict \<Rightarrow> transport_call list \<Rightarrow> unit facade_result" where
  "search mch query kwargs calls =
     (case (case query of
              QStr s \<Rightarrow> Inr (SearchQuery s)
            | QSearchQuery request \<Rightarrow> Inr request
            | _ \<Rightarrow> Inl TypeError) of
        Inl e \<Rightarrow> (Inl e, calls)
      | Inr request \<Rightarrow>
          (let kwargs = with_merged_headers mch kwargs
           in (Inr (), calls @ [SearchPost request search_post_kwargs])))"

definition suggest ::
  "merge_headers \<Rightarrow> query_arg \<Rightarrow> pydict \<Rightarrow> transport_call list \<Rightarrow> unit facade_result" where
  "suggest mch query kwargs calls =
     (case query of
        QSuggestQuery request \<Rightarrow>
          (let kwargs = with_merged_headers mch kwargs
           in (Inr (), calls @ [SuggestPost request kwargs]))
      | _ \<Rightarrow> (Inl TypeError, calls))"

definition autocomplete ::
  "merge_headers \<Rightarrow> query_arg \<Rightarrow> pydict \<Rightarrow> transport_call list \<Rightarrow> unit facade_result" where
  "autocomplete mch query kwargs calls =
     (case query of
        QAutocompleteQuery request \<Rightarrow>
          (let kwargs = with_merged_headers mch kwargs
           in (Inr (), calls @ [AutocompletePost request kwargs]))
      | _ \<Rightarrow> (Inl TypeError, calls))"

text \<open>
  Modelled from the spec: \<open>IndexDocumentsBatch\<close> of the missing
  \<open>_index_documents_batch.py\<close>. A batch is the ordered list of its actions, each an
  action kind with a document; an accumulator appends one action per document, in
  input order.
\<close>

type_synonym batch = "(string \<times> pydict) list"

definition add_actions :: "string \<Rightarrow> pydict list \<Rightarrow> batch \<Rightarrow> batch" where
  "add_actions kind documents b = b @ map (\<lambda>d. (kind, d)) documents"

definition index_documents ::
  "merge_headers \<Rightarrow> batch \<Rightarrow> pydict \<Rightarrow> transport_call list \<Rightarrow> unit facade_result" where
  "index_documents mch b kwargs calls =
     (let kwargs = with_merged_headers mch kwargs
      in (Inr (), calls @ [Index b kwargs]))"

definition upload_documents ::
  "merge_headers \<Rightarrow> pydict list \<Rightarrow> pydict \<Rightarrow> transport_call list \<Rightarrow> unit facade_result" where
  "upload_documents mch documents kwargs calls =
     (let b = add_actions ''upload'' documents [];
          kwargs = with_merged_headers mch kwargs
      in index_documents mch b kwargs calls)"

definition delete_documents ::
  "merge_headers \<Rightarrow> pydict list \<Rightarrow> pydict \<Rightarrow> transport_call list \<Rightarrow> unit facade_result" where
  "delete_documents mch documents kwargs calls =
     (let b = add_actions ''delete'' documents [];
          kwargs = with_merged_headers mch kwargs
      in index_documents mch b kwargs calls)"

definition merge_documents ::
  "merge_headers \<Rightarrow> pydict list \<Rightarrow> pydict \<Rightarrow> transport_call list \<Rightarrow> unit facade_result" where
  "merge_documents mch documents kwargs calls =
     (let b = add_actions ''merge'' documents [];
          kwargs = with_merged_headers mch kwargs
      in index_documents mch b kwargs calls)"

definition merge_or_upload_documents ::
  "merge_headers \<Rightarrow> pydict list \<Rightarrow> pydict \<Rightarrow> transport_call list \<Rightarrow> unit facade_result" where
  "merge_or_upload_documents mch documents kwargs calls =
     (let b = add_actions ''mergeOrUpload'' documents [];
          kwargs = with_merged_headers mch kwargs
      in index_documents mch b kwargs calls)"

text \<open>
  Modelled from the spec: the header merge of the missing \<open>HeadersMixin\<close>, for the
  concrete runs below. Call-level keys override the client-wide defaults; without
  call-level headers the defaults are used.
\<close>

definition merge_client_headers :: "pydict \<Rightarrow> pyval \<Rightarrow> pyval" where
  "merge_client_headers defaults headers =
     (case headers of
        PDict h \<Rightarrow> PDict (foldl (\<lambda>d (k, v). setitem k v d) defaults h)
      | _ \<Rightarrow> PDict defaults)"

definition example_defaults :: pydict where
  "example_defaults =
     [(''api-key'', PStr ''secret''),
      (''Accept'', PStr ''application/json;odata.metadata=none'')]"

definition example_kwargs :: pydict where
  "example_kwargs = [(''headers'', PDict [(''x-ms-client-request-id'', PStr ''abc'')])]"

section \<open>Continuation-token codec\<close>

text \<open>
  \<open>pack_continuation_token\<close> and \<open>unpack_continuation_token\<close> are built from
  \<open>base64.b64encode\<close>/\<open>b64decode\<close> and \<open>json.dumps\<close>/\<open>loads\<close> of the Python
  standard library. These are modelled as CPython 3 implements them. The
  interpreter's resource limits (the recursion depth on deeply nested texts, the
  digit limit of \<open>int\<close>) are not part of the model.
\<close>

subsection \<open>Base 64\<close>

definition b64_alphabet :: string where
  "b64_alphabet = ''ABCDEFGHIJKLMNOPQRSTUVWXYZabcdefghijklmnopqrstuvwxyz0123456789+/''"

definition b64_char :: "nat \<Rightarrow> char" where
  "b64_char n = b64_alphabet ! (n mod 64)"

text \<open>The value of an alphabet character; \<open>None\<close> for every other byte.\<close>

definition b64_index :: "char \<Rightarrow> nat option" where
  "b64_index c =
     (let n = (of_char c :: nat) in
      if 65 \<le> n \<and> n \<le> 90 then Some (n - 65)
      else if 97 \<le> n \<and> n \<le> 122 then Some (n - 71)
      else if 48 \<le> n \<and> n \<le> 57 then Some (n + 4)
      else if n = 43 then Some 62
      else if n = 47 then Some 63
      else None)"

definition byte :: "nat \<Rightarrow> char" where
  "byte n = char_of n"

text \<open>\<open>base64.b64encode\<close>: three bytes give four characters; the tail is padded.\<close>

fun b64encode :: "string \<Rightarrow> string" where
  "b64encode [] = []"
| "b64encode [a] =
     [b64_char (of_char a div 4), b64_char ((of_char a mod 4) * 16), CHR ''='', CHR ''='']"
| "b64encode [a, b] =
     [b64_char (of_char a div 4),
      b64_char ((of_char a mod 4) * 16 + of_char b div 16),
      b64_char ((of_char b mod 16) * 4), CHR ''='']"
| "b64encode (a # b # c # bs) =
     [b64_char (of_char a div 4),
      b64_char ((of_char a mod 4) * 16 + of_char b div 16),
      b64_char ((of_char b mod 16) * 4 + of_char c div 64),
      b64_char (of_char c mod 64)] @ b64encode bs"

text \<open>
  \<open>base64.b64decode(s)\<close> with its default \<open>validate=False\<close> is
  \<open>binascii.a2b_base64\<close> in non-strict mode: a loop over the input with the position
  in the current quad, the bits left over and the number of pad characters seen.
  Bytes outside the alphabet are skipped; a pad character that completes a quad ends
  the decoding; input that ends inside a quad is an error (\<open>binascii.Error\<close>).
\<close>

fun a2b_base64 :: "nat \<Rightarrow> nat \<Rightarrow> nat \<Rightarrow> string \<Rightarrow> string \<Rightarrow> error + string" where
  "a2b_base64 quad_pos leftchar pads out [] =
     (if quad_pos \<noteq> 0 then Inl Base64Error else Inr out)"
| "a2b_base64 quad_pos leftchar pads out (c # cs) =
     (if c = CHR ''='' then
        (if quad_pos \<ge> 2 \<and> quad_pos + (pads + 1) \<ge> 4 then Inr out
         else a2b_base64 quad_pos leftchar (if quad_pos \<ge> 2 then pads + 1 else pads) out cs)
      else
        (case b64_index c of
           None \<Rightarrow> a2b_base64 quad_pos leftchar pads out cs
         | Some v \<Rightarrow>
             (if quad_pos = 0 then a2b_base64 1 v 0 out cs
              else if quad_pos = 1 then
                a2b_base64 2 (v mod 16) 0 (out @ [byte (leftchar * 4 + v div 16)]) cs
              else if quad_pos = 2 then
                a2b_base64 3 (v mod 4) 0 (out @ [byte (leftchar * 16 + v div 4)]) cs
              else a2b_base64 0 0 0 (out @ [byte (leftchar * 64 + v)]) cs)))"

text \<open>
  \<open>base64.b64decode\<close> takes a \<open>bytes\<close> object or an ASCII \<open>str\<close>: a \<open>str\<close> with a
  character outside ASCII raises \<open>ValueError\<close>, any other object \<open>TypeError\<close>.
\<close>

definition ascii_only :: "string \<Rightarrow> bool" where
  "ascii_only s = list_all (\<lambda>c. (of_char c :: nat) < 128) s"

fun b64decode :: "pyval \<Rightarrow> error + string" where
  "b64decode (PStr s) = (if ascii_only s then a2b_base64 0 0 0 [] s else Inl ValueError)"
| "b64decode (PBytes b) = a2b_base64 0 0 0 [] b"
| "b64decode _ = Inl TypeError"

subsection \<open>\<open>json.dumps\<close>\<close>

definition dquote :: char where
  "dquote = CHR 0x22"

definition backslash :: char where
  "backslash = CHR 0x5C"

definition hex_digit :: "nat \<Rightarrow> char" where
  "hex_digit d = (if d < 10 then char_of (48 + d) else char_of (87 + d))"

text \<open>
  With \<open>ensure_ascii\<close> (the default) every character outside the printable ASCII
  range is written as an escape: \<open>\\uXXXX\<close> with four lower-case hexadecimal digits,
  and a character beyond \<open>U+FFFF\<close> as the two escapes of its surrogate pair.
\<close>

definition hex4 :: "nat \<Rightarrow> string" where
  "hex4 n = [hex_digit (n div 4096 mod 16), hex_digit (n div 256 mod 16),
            hex_digit (n div 16 mod 16), hex_digit (n mod 16)]"

definition json_escape_char :: "char \<Rightarrow> string" where
  "json_escape_char c =
     (if c = dquote then [backslash, dquote]
      else if c = backslash then [backslash, backslash]
      else if c = CHR 0x0A then [backslash, CHR ''n'']
      else if c = CHR 0x0D then [backslash, CHR ''r'']
      else if c = CHR 0x09 then [backslash, CHR ''t'']
      else if c = CHR 0x08 then [backslash, CHR ''b'']
      else if c = CHR 0x0C then [backslash, CHR ''f'']
      else if 32 \<le> (of_char c :: nat) \<and> (of_char c :: nat) \<le> 126 then [c]
      else [backslash, CHR ''u''] @ hex4 (of_char c))"

definition escape_code_point :: "nat \<Rightarrow> string" where
  "escape_code_point cp =
     (if cp < 65536 then [backslash, CHR ''u''] @ hex4 cp
      else [backslash, CHR ''u''] @ hex4 (55296 + (cp - 65536) div 1024) @
           [backslash, CHR ''u''] @ hex4 (56320 + (cp - 65536) mod 1024))"

text \<open>
  The characters of a text beyond ASCII, read from its representation: the first
  byte gives the number of bytes of the character, and the bytes its code point.
\<close>

definition utf8_length :: "char \<Rightarrow> nat" where
  "utf8_length c =
     (if (of_char c :: nat) < 128 then 1
      else if (of_char c :: nat) < 224 then 2
      else if (of_char c :: nat) < 240 then 3
      else 4)"

fun utf8_code_point :: "string \<Rightarrow> nat" where
  "utf8_code_point [a] = of_char a"
| "utf8_code_point [a, b] = (of_char a mod 32) * 64 + of_char b mod 64"
| "utf8_code_point [a, b, c] = (of_char a mod 16) * 4096 + (of_char b mod 64) * 64 + of_char c mod 64"
| "utf8_code_point (a # b # c # d # _) =
     (of_char a mod 8) * 262144 + (of_char b mod 64) * 4096 + (of_char c mod 64) * 64
       + of_char d mod 64"
| "utf8_code_point [] = 0"

function json_escape :: "string \<Rightarrow> string" where
  "json_escape [] = []"
| "json_escape (c # cs) =
     (if (of_char c :: nat) < 128 then json_escape_char c @ json_escape cs
      else escape_code_point (utf8_code_point (c # take (utf8_length c - 1) cs))
             @ json_escape (drop (utf8_length c - 1) cs))"
  by pat_completeness auto
termination
  by (relation "measure length") auto

definition json_string :: "string \<Rightarrow> string" where
  "json_string s = [dquote] @ json_escape s @ [dquote]"

text \<open>
  A float is written by \<open>float.__repr__\<close>: the shortest decimal literal that reads
  back as the float, which is a sign, the integer part, and a fraction (\<open>80.0\<close>,
  \<open>-0.5\<close>) or an exponent with its sign (\<open>1e+22\<close>, \<open>1.5e-07\<close>). JSON data carries a
  float as that literal: \<open>Fixed\<close> with the digits of the fraction (at least one),
  \<open>Sci\<close> with the digits of the fraction (none when there is no point) and the sign
  and digits of the exponent. A digit is a number taken modulo ten.
\<close>

datatype float_lit =
    Fixed bool nat nat "nat list"
  | Sci bool nat "nat list" bool nat "nat list"

definition digits :: "nat list \<Rightarrow> string" where
  "digits ds = map (\<lambda>d. digit_char (d mod 10)) ds"

definition digits_value :: "nat \<Rightarrow> nat list \<Rightarrow> nat" where
  "digits_value n ds = foldl (\<lambda>a d. a * 10 + d mod 10) n ds"

fun float_text :: "float_lit \<Rightarrow> string" where
  "float_text (Fixed neg n d ds) =
     (if neg then ''-'' else []) @ str_nat n @ ''.'' @ digits (d # ds)"
| "float_text (Sci neg n fs eneg e es) =
     (if neg then ''-'' else []) @ str_nat n @ (if fs = [] then [] else ''.'' @ digits fs)
       @ ''e'' @ (if eneg then ''-'' else ''+'') @ digits (e # es)"

text \<open>
  The float of a literal with the digits \<open>m\<close>, of which \<open>k\<close> after the point, and the
  exponent \<open>e\<close>: the float nearest to the number the literal denotes.
\<close>

definition float_value :: "bool \<Rightarrow> nat \<Rightarrow> nat \<Rightarrow> bool \<Rightarrow> nat \<Rightarrow> pyval" where
  "float_value neg m k eneg e =
     PFloat ((if neg then - 1 else 1) * real m / 10 ^ k * (if eneg then 1 / 10 ^ e else 10 ^ e))"

fun float_of_lit :: "float_lit \<Rightarrow> pyval" where
  "float_of_lit (Fixed neg n d ds) =
     float_value neg (digits_value n (d # ds)) (length (d # ds)) False 0"
| "float_of_lit (Sci neg n fs eneg e es) =
     float_value neg (digits_value n fs) (length fs) eneg (digits_value 0 (e # es))"

text \<open>
  JSON data as \<open>json.dumps\<close> is given it here; with the default \<open>allow_nan\<close> the floats
  that are not numbers are written \<open>NaN\<close>, \<open>Infinity\<close> and \<open>-Infinity\<close>.
\<close>

datatype json =
    JNull
  | JBool bool
  | JInt int
  | JFloat float_lit
  | JNaN
  | JInf bool
  | JStr string
  | JList "json list"
  | JObject "(string \<times> json) list"

text \<open>The text of a value with the default separators \<open>", "\<close> and \<open>": "\<close>.\<close>

fun json_text :: "json \<Rightarrow> string"
  and json_items :: "json list \<Rightarrow> string"
  and json_members :: "(string \<times> json) list \<Rightarrow> string" where
  "json_text JNull = ''null''"
| "json_text (JBool b) = (if b then ''true'' else ''false'')"
| "json_text (JInt i) = str_int i"
| "json_text (JFloat f) = float_text f"
| "json_text JNaN = ''NaN''"
| "json_text (JInf neg) = (if neg then ''-Infinity'' else ''Infinity'')"
| "json_text (JStr s) = json_string s"
| "json_text (JList xs) = ''['' @ json_items xs @ '']''"
| "json_text (JObject kvs) = ''{'' @ json_members kvs @ ''}''"
| "json_items [] = []"
| "json_items [x] = json_text x"
| "json_items (x # y # xs) = json_text x @ '', '' @ json_items (y # xs)"
| "json_members [] = []"
| "json_members [(k, v)] = json_string k @ '': '' @ json_text v"
| "json_members ((k, v) # p # kvs) =
     json_string k @ '': '' @ json_text v @ '', '' @ json_members (p # kvs)"

definition json_dumps :: "json \<Rightarrow> string" where
  "json_dumps v = json_text v"

text \<open>The Python value that JSON data is.\<close>

fun py_of_json :: "json \<Rightarrow> pyval"
  and py_of_items :: "json list \<Rightarrow> pyval list"
  and py_of_members :: "(string \<times> json) list \<Rightarrow> (string \<times> pyval) list" where
  "py_of_json JNull = PNone"
| "py_of_json (JBool b) = PBool b"
| "py_of_json (JInt i) = PInt i"
| "py_of_json (JFloat f) = float_of_lit f"
| "py_of_json JNaN = PNaN"
| "py_of_json (JInf neg) = PInf neg"
| "py_of_json (JStr s) = PStr s"
| "py_of_json (JList xs) = PList (py_of_items xs)"
| "py_of_json (JObject kvs) = PDict (py_of_members kvs)"
| "py_of_items [] = []"
| "py_of_items (x # xs) = py_of_json x # py_of_items xs"
| "py_of_members [] = []"
| "py_of_members ((k, v) # kvs) = (k, py_of_json v) # py_of_members kvs"

text \<open>
  \<open>.encode("utf-8")\<close>: the bytes of a text are its representation; a text that holds
  a surrogate cannot be encoded.
\<close>

fun has_surrogate :: "string \<Rightarrow> bool" where
  "has_surrogate (a # b # cs) =
     ((of_char a = (237::nat) \<and> 160 \<le> (of_char b :: nat)) \<or> has_surrogate (b # cs))"
| "has_surrogate _ = False"

definition encode_utf8 :: "string \<Rightarrow> error + string" where
  "encode_utf8 s = (if has_surrogate s then Inl UnicodeEncodeError else Inr s)"

subsection \<open>\<open>json.loads\<close> on bytes: finding the text\<close>

text \<open>
  \<open>json.loads\<close> on a \<open>bytes\<close> object first decodes it with the encoding
  \<open>json.detect_encoding\<close> finds and the error handler \<open>surrogatepass\<close>: a byte order
  mark or the position of the zero bytes among the first four select UTF-16 or
  UTF-32, everything else is UTF-8. Bytes that are not a text of that encoding raise
  \<open>UnicodeDecodeError\<close>.
\<close>

datatype encoding = UTF8 | UTF8_SIG | UTF16 | UTF16_LE | UTF16_BE | UTF32 | UTF32_LE | UTF32_BE

fun sniff_zeros :: "string \<Rightarrow> encoding" where
  "sniff_zeros (a # b # c # d # _) =
     (if a = CHR 0x00 then (if b \<noteq> CHR 0x00 then UTF16_BE else UTF32_BE)
      else if b = CHR 0x00 then (if c \<noteq> CHR 0x00 \<or> d \<noteq> CHR 0x00 then UTF16_LE else UTF32_LE)
      else UTF8)"
| "sniff_zeros [a, b] =
     (if a = CHR 0x00 then UTF16_BE else if b = CHR 0x00 then UTF16_LE else UTF8)"
| "sniff_zeros _ = UTF8"

definition detect_encoding :: "string \<Rightarrow> encoding" where
  "detect_encoding b =
     (if starts_with [CHR 0x00, CHR 0x00, CHR 0xFE, CHR 0xFF] b
         \<or> starts_with [CHR 0xFF, CHR 0xFE, CHR 0x00, CHR 0x00] b then UTF32
      else if starts_with [CHR 0xFE, CHR 0xFF] b \<or> starts_with [CHR 0xFF, CHR 0xFE] b then UTF16
      else if starts_with [CHR 0xEF, CHR 0xBB, CHR 0xBF] b then UTF8_SIG
      else sniff_zeros b)"

text \<open>
  Well-formed UTF-8: shortest forms only, code points up to \<open>U+10FFFF\<close>; the encoded
  surrogates pass.
\<close>

definition continuation :: "char \<Rightarrow> bool" where
  "continuation c = (128 \<le> (of_char c :: nat) \<and> (of_char c :: nat) \<le> 191)"

definition between :: "nat \<Rightarrow> nat \<Rightarrow> char \<Rightarrow> bool" where
  "between lo hi c = (lo \<le> (of_char c :: nat) \<and> (of_char c :: nat) \<le> hi)"

fun utf8_valid :: "string \<Rightarrow> bool" where
  "utf8_valid [] = True"
| "utf8_valid (a # cs) =
     (if (of_char a :: nat) < 128 then utf8_valid cs
      else if between 194 223 a then
        (case cs of b # r \<Rightarrow> continuation b \<and> utf8_valid r | _ \<Rightarrow> False)
      else if between 224 239 a then
        (case cs of
           b # c # r \<Rightarrow>
             (if (of_char a :: nat) = 224 then between 160 191 b else continuation b)
             \<and> continuation c \<and> utf8_valid r
         | _ \<Rightarrow> False)
      else if between 240 244 a then
        (case cs of
           b # c # d # r \<Rightarrow>
             (if (of_char a :: nat) = 240 then between 144 191 b
              else if (of_char a :: nat) = 244 then between 128 143 b
              else continuation b)
             \<and> continuation c \<and> continuation d \<and> utf8_valid r
         | _ \<Rightarrow> False)
      else False)"

text \<open>The representation of a code point.\<close>

definition utf8_of_code_point :: "nat \<Rightarrow> string" where
  "utf8_of_code_point cp =
     (if cp < 128 then [byte cp]
      else if cp < 2048 then [byte (192 + cp div 64), byte (128 + cp mod 64)]
      else if cp < 65536 then
        [byte (224 + cp div 4096), byte (128 + cp div 64 mod 64), byte (128 + cp mod 64)]
      else
        [byte (240 + cp div 262144), byte (128 + cp div 4096 mod 64),
         byte (128 + cp div 64 mod 64), byte (128 + cp mod 64)])"

definition high_surrogate :: "nat \<Rightarrow> bool" where
  "high_surrogate u = (55296 \<le> u \<and> u \<le> 56319)"

definition low_surrogate :: "nat \<Rightarrow> bool" where
  "low_surrogate u = (56320 \<le> u \<and> u \<le> 57343)"

definition join_surrogates :: "nat \<Rightarrow> nat \<Rightarrow> nat" where
  "join_surrogates hi lo = 65536 + (hi - 55296) * 1024 + (lo - 56320)"

text \<open>
  UTF-16: two bytes a unit, a high surrogate followed by a low one is one character,
  any other surrogate passes alone. UTF-32: four bytes a unit, at most \<open>U+10FFFF\<close>.
\<close>

fun utf16_units :: "bool \<Rightarrow> string \<Rightarrow> nat list option" where
  "utf16_units le [] = Some []"
| "utf16_units le [a] = None"
| "utf16_units le (a # b # cs) =
     (case utf16_units le cs of
        None \<Rightarrow> None
      | Some us \<Rightarrow>
          Some ((if le then of_char a + 256 * of_char b else 256 * of_char a + of_char b) # us))"

fun utf16_code_points :: "nat list \<Rightarrow> nat list" where
  "utf16_code_points (hi # lo # us) =
     (if high_surrogate hi \<and> low_surrogate lo
      then join_surrogates hi lo # utf16_code_points us
      else hi # utf16_code_points (lo # us))"
| "utf16_code_points us = us"

fun utf32_units :: "bool \<Rightarrow> string \<Rightarrow> nat list option" where
  "utf32_units le (a # b # c # d # cs) =
     (case utf32_units le cs of
        None \<Rightarrow> None
      | Some us \<Rightarrow>
          Some ((if le then of_char a + 256 * of_char b + 65536 * of_char c + 16777216 * of_char d
                 else 16777216 * of_char a + 65536 * of_char b + 256 * of_char c + of_char d)
                # us))"
| "utf32_units le [] = Some []"
| "utf32_units le _ = None"

definition utf8_decode :: "string \<Rightarrow> error + string" where
  "utf8_decode b = (if utf8_valid b then Inr b else Inl UnicodeDecodeError)"

definition utf16_decode :: "bool \<Rightarrow> string \<Rightarrow> error + string" where
  "utf16_decode le b =
     (case utf16_units le b of
        None \<Rightarrow> Inl UnicodeDecodeError
      | Some us \<Rightarrow> Inr (concat (map utf8_of_code_point (utf16_code_points us))))"

definition utf32_decode :: "bool \<Rightarrow> string \<Rightarrow> error + string" where
  "utf32_decode le b =
     (case utf32_units le b of
        None \<Rightarrow> Inl UnicodeDecodeError
      | Some us \<Rightarrow>
          if list_all (\<lambda>u. u \<le> 1114111) us then Inr (concat (map utf8_of_code_point us))
          else Inl UnicodeDecodeError)"

definition decode_payload :: "string \<Rightarrow> error + string" where
  "decode_payload b =
     (case detect_encoding b of
        UTF8 \<Rightarrow> utf8_decode b
      | UTF8_SIG \<Rightarrow> utf8_decode (drop 3 b)
      | UTF16 \<Rightarrow> utf16_decode (starts_with [CHR 0xFF, CHR 0xFE] b) (drop 2 b)
      | UTF16_LE \<Rightarrow> utf16_decode True b
      | UTF16_BE \<Rightarrow> utf16_decode False b
      | UTF32 \<Rightarrow> utf32_decode (starts_with [CHR 0xFF, CHR 0xFE] b) (drop 4 b)
      | UTF32_LE \<Rightarrow> utf32_decode True b
      | UTF32_BE \<Rightarrow> utf32_decode False b)"

subsection \<open>\<open>json.loads\<close>: reading the text\<close>

text \<open>
  The decoder of the standard library (\<open>JSONDecoder.decode\<close> with \<open>scan_once\<close>,
  \<open>JSONObject\<close>, \<open>JSONArray\<close> and \<open>scanstring\<close> in strict mode) reads the text from
  left to right with one character of lookahead. It is modelled as the automaton it
  is: a mode, and a stack of the arrays and objects that are still open. The first
  character that fits nowhere raises \<open>JSONDecodeError\<close>.
\<close>

datatype frame =
    FArr "pyval list"
  | FObjKey pydict
  | FObjVal pydict string

datatype mode =
    MValue
  | MArrFirst
  | MObjFirst
  | MKey
  | MColon
  | MStr string
  | MEsc string
  | MUni string nat nat
  | MSur string nat
  | MSurEsc string nat
  | MSurUni string nat nat nat
  | MMinus
  | MZero bool
  | MDigits bool nat
  | MFrac bool nat
  | MFracDigits bool nat nat
  | MExp bool nat nat
  | MExpSign bool nat nat bool
  | MExpDigits bool nat nat bool nat
  | MLit string pyval
  | MAfter pyval

type_synonym jstate = "mode \<times> frame list"

definition is_ws :: "char \<Rightarrow> bool" where
  "is_ws c = (c = CHR 0x20 \<or> c = CHR 0x09 \<or> c = CHR 0x0A \<or> c = CHR 0x0D)"

definition digit_value :: "char \<Rightarrow> nat" where
  "digit_value c = of_char c - 48"

definition hex_value :: "char \<Rightarrow> nat option" where
  "hex_value c =
     (let n = (of_char c :: nat) in
      if 48 \<le> n \<and> n \<le> 57 then Some (n - 48)
      else if 97 \<le> n \<and> n \<le> 102 then Some (n - 87)
      else if 65 \<le> n \<and> n \<le> 70 then Some (n - 55)
      else None)"

definition signed :: "bool \<Rightarrow> nat \<Rightarrow> pyval" where
  "signed neg n = PInt (if neg then - int n else int n)"

text \<open>
  A value is complete: skip white space; then the innermost open container decides
  what may follow. Pairs are collected into a dictionary, a repeated key taking its
  last value. After the outermost value nothing but white space may follow.
\<close>

fun after_value :: "pyval \<Rightarrow> frame list \<Rightarrow> char \<Rightarrow> error + jstate" where
  "after_value v stk c =
     (if is_ws c then Inr (MAfter v, stk)
      else case stk of
        [] \<Rightarrow> Inl JSONDecodeError
      | FArr items # rest \<Rightarrow>
          if c = CHR '','' then Inr (MValue, FArr (items @ [v]) # rest)
          else if c = CHR '']'' then Inr (MAfter (PList (items @ [v])), rest)
          else Inl JSONDecodeError
      | FObjVal pairs key # rest \<Rightarrow>
          if c = CHR '','' then Inr (MKey, FObjKey (setitem key v pairs) # rest)
          else if c = CHR ''}'' then Inr (MAfter (PDict (setitem key v pairs)), rest)
          else Inl JSONDecodeError
      | FObjKey pairs # rest \<Rightarrow> Inl JSONDecodeError)"

text \<open>
  A value starts (\<open>scan_once\<close>). A number is \<open>-?(0|[1-9][0-9]*)\<close>, with a fraction
  \<open>\.[0-9]+\<close> or an exponent \<open>[eE][-+]?[0-9]+\<close> a float; \<open>NaN\<close>, \<open>Infinity\<close> and
  \<open>-Infinity\<close> are read as well.
\<close>

definition start_value :: "frame list \<Rightarrow> char \<Rightarrow> error + jstate" where
  "start_value stk c =
     (if c = dquote then Inr (MStr [], stk)
      else if c = CHR ''{'' then Inr (MObjFirst, FObjKey [] # stk)
      else if c = CHR ''['' then Inr (MArrFirst, FArr [] # stk)
      else if c = CHR ''n'' then Inr (MLit ''ull'' PNone, stk)
      else if c = CHR ''t'' then Inr (MLit ''rue'' (PBool True), stk)
      else if c = CHR ''f'' then Inr (MLit ''alse'' (PBool False), stk)
      else if c = CHR ''-'' then Inr (MMinus, stk)
      else if c = CHR ''0'' then Inr (MZero False, stk)
      else if is_digit c then Inr (MDigits False (digit_value c), stk)
      else if c = CHR ''N'' then Inr (MLit ''aN'' PNaN, stk)
      else if c = CHR ''I'' then Inr (MLit ''nfinity'' (PInf False), stk)
      else Inl JSONDecodeError)"

text \<open>After the digits of an integer: more of a number, or the value is complete.\<close>

definition after_int :: "bool \<Rightarrow> nat \<Rightarrow> frame list \<Rightarrow> char \<Rightarrow> error + jstate" where
  "after_int neg n stk c =
     (if c = CHR ''.'' then Inr (MFrac neg n, stk)
      else if c = CHR ''e'' \<or> c = CHR ''E'' then Inr (MExp neg n 0, stk)
      else after_value (signed neg n) stk c)"

text \<open>The end of a string: a key when the innermost object waits for one, else a value.\<close>

definition end_string :: "string \<Rightarrow> frame list \<Rightarrow> jstate" where
  "end_string s stk =
     (case stk of
        FObjKey pairs # rest \<Rightarrow> (MColon, FObjVal pairs s # rest)
      | _ \<Rightarrow> (MAfter (PStr s), stk))"

definition unescape :: "char \<Rightarrow> char option" where
  "unescape c =
     (if c = dquote then Some dquote
      else if c = backslash then Some backslash
      else if c = CHR ''/'' then Some (CHR ''/'')
      else if c = CHR ''b'' then Some (CHR 0x08)
      else if c = CHR ''f'' then Some (CHR 0x0C)
      else if c = CHR ''n'' then Some (CHR 0x0A)
      else if c = CHR ''r'' then Some (CHR 0x0D)
      else if c = CHR ''t'' then Some (CHR 0x09)
      else None)"

text \<open>Inside a string, and after a backslash.\<close>

definition in_string :: "string \<Rightarrow> frame list \<Rightarrow> char \<Rightarrow> error + jstate" where
  "in_string s stk c =
     (if c = dquote then Inr (end_string s stk)
      else if c = backslash then Inr (MEsc s, stk)
      else if (of_char c :: nat) < 32 then Inl JSONDecodeError
      else Inr (MStr (s @ [c]), stk))"

definition in_escape :: "string \<Rightarrow> frame list \<Rightarrow> char \<Rightarrow> error + jstate" where
  "in_escape s stk c =
     (if c = CHR ''u'' then Inr (MUni s 0 0, stk)
      else case unescape c of
        Some c' \<Rightarrow> Inr (MStr (s @ [c']), stk)
      | None \<Rightarrow> Inl JSONDecodeError)"

text \<open>
  An escape \<open>\\uXXXX\<close> that gives a high surrogate waits for a second escape: with a low
  surrogate the two are one character, otherwise the first stands alone.
\<close>

fun json_step :: "jstate \<Rightarrow> char \<Rightarrow> error + jstate" where
  "json_step (MValue, stk) c = (if is_ws c then Inr (MValue, stk) else start_value stk c)"
| "json_step (MArrFirst, stk) c =
     (if is_ws c then Inr (MArrFirst, stk)
      else if c = CHR '']'' then Inr (MAfter (PList []), tl stk)
      else start_value stk c)"
| "json_step (MObjFirst, stk) c =
     (if is_ws c then Inr (MObjFirst, stk)
      else if c = CHR ''}'' then Inr (MAfter (PDict []), tl stk)
      else if c = dquote then Inr (MStr [], stk)
      else Inl JSONDecodeError)"
| "json_step (MKey, stk) c =
     (if is_ws c then Inr (MKey, stk)
      else if c = dquote then Inr (MStr [], stk)
      else Inl JSONDecodeError)"
| "json_step (MColon, stk) c =
     (if is_ws c then Inr (MColon, stk)
      else if c = CHR '':'' then Inr (MValue, stk)
      else Inl JSONDecodeError)"
| "json_step (MStr s, stk) c = in_string s stk c"
| "json_step (MEsc s, stk) c = in_escape s stk c"
| "json_step (MUni s k n, stk) c =
     (case hex_value c of
        None \<Rightarrow> Inl JSONDecodeError
      | Some d \<Rightarrow>
          if k < 3 then Inr (MUni s (k + 1) (n * 16 + d), stk)
          else if high_surrogate (n * 16 + d) then Inr (MSur s (n * 16 + d), stk)
          else Inr (MStr (s @ utf8_of_code_point (n * 16 + d)), stk))"
| "json_step (MSur s hi, stk) c =
     (if c = backslash then Inr (MSurEsc s hi, stk)
      else in_string (s @ utf8_of_code_point hi) stk c)"
| "json_step (MSurEsc s hi, stk) c =
     (if c = CHR ''u'' then Inr (MSurUni s hi 0 0, stk)
      else in_escape (s @ utf8_of_code_point hi) stk c)"
| "json_step (MSurUni s hi k n, stk) c =
     (case hex_value c of
        None \<Rightarrow> Inl JSONDecodeError
      | Some d \<Rightarrow>
          if k < 3 then Inr (MSurUni s hi (k + 1) (n * 16 + d), stk)
          else if low_surrogate (n * 16 + d) then
            Inr (MStr (s @ utf8_of_code_point (join_surrogates hi (n * 16 + d))), stk)
          else if high_surrogate (n * 16 + d) then
            Inr (MSur (s @ utf8_of_code_point hi) (n * 16 + d), stk)
          else Inr (MStr (s @ utf8_of_code_point hi @ utf8_of_code_point (n * 16 + d)), stk))"
| "json_step (MMinus, stk) c =
     (if c = CHR ''0'' then Inr (MZero True, stk)
      else if is_digit c then Inr (MDigits True (digit_value c), stk)
      else if c = CHR ''I'' then Inr (MLit ''nfinity'' (PInf True), stk)
      else Inl JSONDecodeError)"
| "json_step (MZero neg, stk) c = after_int neg 0 stk c"
| "json_step (MDigits neg n, stk) c =
     (if is_digit c then Inr (MDigits neg (n * 10 + digit_value c), stk)
      else after_int neg n stk c)"
| "json_step (MFrac neg n, stk) c =
     (if is_digit c then Inr (MFracDigits neg (n * 10 + digit_value c) 1, stk)
      else Inl JSONDecodeError)"
| "json_step (MFracDigits neg m k, stk) c =
     (if is_digit c then Inr (MFracDigits neg (m * 10 + digit_value c) (k + 1), stk)
      else if c = CHR ''e'' \<or> c = CHR ''E'' then Inr (MExp neg m k, stk)
      else after_value (float_value neg m k False 0) stk c)"
| "json_step (MExp neg m k, stk) c =
     (if is_digit c then Inr (MExpDigits neg m k False (digit_value c), stk)
      else if c = CHR ''+'' then Inr (MExpSign neg m k False, stk)
      else if c = CHR ''-'' then Inr (MExpSign neg m k True, stk)
      else Inl JSONDecodeError)"
| "json_step (MExpSign neg m k eneg, stk) c =
     (if is_digit c then Inr (MExpDigits neg m k eneg (digit_value c), stk)
      else Inl JSONDecodeError)"
| "json_step (MExpDigits neg m k eneg e, stk) c =
     (if is_digit c then Inr (MExpDigits neg m k eneg (e * 10 + digit_value c), stk)
      else after_value (float_value neg m k eneg e) stk c)"
| "json_step (MLit [] v, stk) c = after_value v stk c"
| "json_step (MLit (r # rs) v, stk) c =
     (if c = r then (if rs = [] then Inr (MAfter v, stk) else Inr (MLit rs v, stk))
      else Inl JSONDecodeError)"
| "json_step (MAfter v, stk) c = after_value v stk c"

text \<open>The end of the text: the outermost value must be complete.\<close>

fun json_finish :: "jstate \<Rightarrow> error + pyval" where
  "json_finish (MAfter v, []) = Inr v"
| "json_finish (MZero neg, []) = Inr (PInt 0)"
| "json_finish (MDigits neg n, []) = Inr (signed neg n)"
| "json_finish (MFracDigits neg m k, []) = Inr (float_value neg m k False 0)"
| "json_finish (MExpDigits neg m k eneg e, []) = Inr (float_value neg m k eneg e)"
| "json_finish _ = Inl JSONDecodeError"

fun json_run :: "jstate \<Rightarrow> string \<Rightarrow> error + pyval" where
  "json_run st [] = json_finish st"
| "json_run st (c # cs) = (case json_step st c of Inl e \<Rightarrow> Inl e | Inr st' \<Rightarrow> json_run st' cs)"

definition json_loads :: "string \<Rightarrow> error + pyval" where
  "json_loads b =
     (case decode_payload b of
        Inl e \<Rightarrow> Inl e
      | Inr text \<Rightarrow> json_run (MValue, []) text)"

text \<open>
  JSON data whose texts (strings and keys) are within ASCII and whose objects have
  distinct keys, as the dictionaries they are written from do.
\<close>

fun plain :: "json \<Rightarrow> bool"
  and plain_list :: "json list \<Rightarrow> bool"
  and plain_members :: "(string \<times> json) list \<Rightarrow> bool" where
  "plain JNull = True"
| "plain (JBool b) = True"
| "plain (JInt i) = True"
| "plain (JFloat f) = True"
| "plain JNaN = True"
| "plain (JInf neg) = True"
| "plain (JStr s) = ascii_only s"
| "plain (JList xs) = plain_list xs"
| "plain (JObject kvs) = (distinct (map fst kvs) \<and> plain_members kvs)"
| "plain_list [] = True"
| "plain_list (x # xs) = (plain x \<and> plain_list xs)"
| "plain_members [] = True"
| "plain_members ((k, v) # kvs) = (ascii_only k \<and> plain v \<and> plain_members kvs)"

text \<open>
  A text after which a number literal is complete: it is empty, or starts with a
  character that cannot continue a number.
\<close>

definition terminated :: "string \<Rightarrow> bool" where
  "terminated rest =
     (case rest of
        [] \<Rightarrow> True
      | c # _ \<Rightarrow> \<not> is_digit c \<and> c \<noteq> CHR ''.'' \<and> c \<noteq> CHR ''e'' \<and> c \<noteq> CHR ''E'')"

text \<open>
  A stack on which the next string is a value: the innermost open container is not
  an object that waits for a key.
\<close>

fun holds_value :: "frame list \<Rightarrow> bool" where
  "holds_value (FObjKey pairs # stk) = False"
| "holds_value stk = True"

subsection \<open>The token\<close>

text \<open>
  The generated models \<open>SearchDocumentsResult\<close> and \<open>SearchRequest\<close> are not among the
  sources. Of a response the codec reads \<open>next_link\<close> and \<open>next_page_parameters\<close>
  (\<open>None\<close> when the service sent no continuation data), the callback also its
  \<open>results\<close>. Modelled from the spec: \<open>next_link\<close> is a string, or \<open>None\<close> when the
  response carried no link. The type of the paging parameters is left open;
  \<open>serialize\<close> and \<open>deserialize\<close> of the missing \<open>SearchRequest\<close> are parameters of the
  codec: \<open>serialize\<close> gives JSON data, \<open>deserialize\<close> reads a decoded value or fails.
\<close>

record 'req search_documents_result =
  next_link :: "string option"
  next_page_parameters :: "'req option"
  results :: "search_result list"

definition api_version :: string where
  "api_version = ''2019-05-06-Preview''"

text \<open>
  \<open>pack_continuation_token\<close>: the token is \<open>base64.b64encode\<close> of the UTF-8 bytes of
  the JSON text, a \<open>bytes\<close> object.
\<close>

definition json_of_link :: "string option \<Rightarrow> json" where
  "json_of_link l = (case l of None \<Rightarrow> JNull | Some s \<Rightarrow> JStr s)"

definition pack_continuation_token ::
  "('req \<Rightarrow> json) \<Rightarrow> 'req search_documents_result \<Rightarrow> error + pyval option" where
  "pack_continuation_token serialize response =
     (case next_page_parameters response of
        Some params \<Rightarrow>
          (let token = JObject [(''apiVersion'', JStr api_version),
                                (''nextLink'', json_of_link (next_link response)),
                                (''nextPageParameters'', serialize params)]
           in case encode_utf8 (json_dumps token) of
                Inl e \<Rightarrow> Inl e
              | Inr bytes \<Rightarrow> Inr (Some (PBytes (b64encode bytes))))
      | None \<Rightarrow> Inr None)"

text \<open>\<open>obj[key]\<close> with a string key.\<close>

fun getitem :: "pyval \<Rightarrow> string \<Rightarrow> error + pyval" where
  "getitem (PDict d) k = (case map_of d k of None \<Rightarrow> Inl (KeyError k) | Some v \<Rightarrow> Inr v)"
| "getitem _ k = Inl TypeError"

text \<open>
  \<open>unpack_continuation_token\<close>: the token is whatever object the caller passes. The
  paging parameters are deserialized into a local that is not used afterwards; the
  function returns \<open>next_link\<close> alone.
\<close>

definition unpack_continuation_token ::
  "(pyval \<Rightarrow> error + 'req) \<Rightarrow> pyval \<Rightarrow> error + pyval" where
  "unpack_continuation_token deserialize token =
     (case b64decode token of
        Inl e \<Rightarrow> Inl e
      | Inr payload \<Rightarrow>
     (case json_loads payload of
        Inl e \<Rightarrow> Inl e
      | Inr unpacked_token \<Rightarrow>
     (case getitem unpacked_token ''nextLink'' of
        Inl e \<Rightarrow> Inl e
      | Inr next_link' \<Rightarrow>
     (case getitem unpacked_token ''nextPageParameters'' of
        Inl e \<Rightarrow> Inl e
      | Inr next_page_parameters' \<Rightarrow>
     (case deserialize next_page_parameters' of
        Inl e \<Rightarrow> Inl e
      | Inr next_page_request \<Rightarrow> Inr next_link')))))"

text \<open>
  The assignment \<open>a, b = value\<close>: the value is iterated and must give exactly two
  items (\<open>ValueError\<close> otherwise); a value that cannot be iterated raises
  \<open>TypeError\<close>. A string gives its characters, a \<open>bytes\<close> object its bytes as
  integers, a dictionary its keys.
\<close>

function utf8_chars :: "string \<Rightarrow> string list" where
  "utf8_chars [] = []"
| "utf8_chars (c # cs) =
     (c # take (utf8_length c - 1) cs) # utf8_chars (drop (utf8_length c - 1) cs)"
  by pat_completeness auto
termination
  by (relation "measure length") auto

fun unpack_pair :: "pyval \<Rightarrow> error + pyval \<times> pyval" where
  "unpack_pair (PStr s) =
     (case utf8_chars s of [a, b] \<Rightarrow> Inr (PStr a, PStr b) | _ \<Rightarrow> Inl ValueError)"
| "unpack_pair (PBytes s) =
     (case s of [a, b] \<Rightarrow> Inr (PInt (of_char a), PInt (of_char b)) | _ \<Rightarrow> Inl ValueError)"
| "unpack_pair (PList xs) = (case xs of [a, b] \<Rightarrow> Inr (a, b) | _ \<Rightarrow> Inl ValueError)"
| "unpack_pair (PTuple xs) = (case xs of [a, b] \<Rightarrow> Inr (a, b) | _ \<Rightarrow> Inl ValueError)"
| "unpack_pair (PDict kvs) =
     (case kvs of [(a, _), (b, _)] \<Rightarrow> Inr (PStr a, PStr b) | _ \<Rightarrow> Inl ValueError)"
| "unpack_pair _ = Inl TypeError"

text \<open>
  The callback \<open>_unpack_next_link\<close> that \<open>search\<close> hands to \<open>search_post\<close>:
  \<open>_next_link, _ = unpack_continuation_token(next_link)\<close>.
\<close>

definition unpack_next_link :: "(pyval \<Rightarrow> error + 'req) \<Rightarrow> pyval \<Rightarrow> error + pyval" where
  "unpack_next_link deserialize token =
     (case unpack_continuation_token deserialize token of
        Inl e \<Rightarrow> Inl e
      | Inr r \<Rightarrow>
          (case unpack_pair r of
             Inl e \<Rightarrow> Inl e
           | Inr (link, _) \<Rightarrow> Inr link))"

text \<open>
  The callback \<open>_extract_data_cb\<close>, from the deserialized response on: the token of
  the response and its rows, adapted one after the other on the store.
\<close>

fun convert_all :: "store \<Rightarrow> search_result list \<Rightarrow> (error + addr list) \<times> store" where
  "convert_all st [] = (Inr [], st)"
| "convert_all st (r # rs) =
     (case convert_search_result st r of
        (Inl e, st') \<Rightarrow> (Inl e, st')
      | (Inr a, st') \<Rightarrow>
          (case convert_all st' rs of
             (Inl e, st'') \<Rightarrow> (Inl e, st'')
           | (Inr as, st'') \<Rightarrow> (Inr (a # as), st'')))"

definition extract_data_cb ::
  "('req \<Rightarrow> json) \<Rightarrow> store \<Rightarrow> 'req search_documents_result
     \<Rightarrow> (error + pyval option \<times> addr list) \<times> store" where
  "extract_data_cb serialize st response =
     (case pack_continuation_token serialize response of
        Inl e \<Rightarrow> (Inl e, st)
      | Inr continuation_token \<Rightarrow>
          (case convert_all st (results response) of
             (Inl e, st') \<Rightarrow> (Inl e, st')
           | (Inr rows, st') \<Rightarrow> (Inr (continuation_token, rows), st')))"

text \<open>
  Modelled from the spec: \<open>serialize\<close> and \<open>deserialize\<close> of the missing
  \<open>SearchRequest\<close>, for the concrete runs below. Paging parameters are represented
  by their wire attributes; \<open>serialize\<close> gives them as a JSON object and
  \<open>deserialize\<close> reads them back from a dictionary.
\<close>

type_synonym wire_request = "(string \<times> json) list"

definition wire_serialize :: "wire_request \<Rightarrow> json" where
  "wire_serialize params = JObject params"

fun wire_deserialize :: "pyval \<Rightarrow> error + pydict" where
  "wire_deserialize (PDict d) = Inr d"
| "wire_deserialize _ = Inl DeserializationError"

definition example_response :: "wire_request search_documents_result" where
  "example_response =
     \<lparr> next_link = Some ''https://svc/next'',
       next_page_parameters = Some [(''search'', JStr ''hotel''), (''skip'', JInt 50)],
       results = [] \<rparr>"

definition last_response :: "wire_request search_documents_result" where
  "last_response = \<lparr> next_link = None, next_page_parameters = None, results = [] \<rparr>"

text \<open>
  The token of \<open>example_response\<close>, and the same token content under another
  protocol-version tag: base 64 of
  \<open>{"apiVersion": "1999-01-01", "nextLink": "https://svc/next",
  "nextPageParameters": {"search": "hotel", "skip": 50}}\<close>.
\<close>

definition example_token :: pyval where
  "example_token =
     PBytes ''eyJhcGlWZXJzaW9uIjogIjIwMTktMDUtMDYtUHJldmlldyIsICJuZXh0TGluayI6ICJodHRwczovL3N2Yy9uZXh0IiwgIm5leHRQYWdlUGFyYW1ldGVycyI6IHsic2VhcmNoIjogImhvdGVsIiwgInNraXAiOiA1MH19''"




text \<open>A response whose next link has two characters, and its token.\<close>

definition short_link_response :: "wire_request search_documents_result" where
  "short_link_response =
     \<lparr> next_link = Some ''ab'', next_page_parameters = Some [], results = [] \<rparr>"

definition short_link_token :: pyval where
  "short_link_token =
     PBytes ''eyJhcGlWZXJzaW9uIjogIjIwMTktMDUtMDYtUHJldmlldyIsICJuZXh0TGluayI6ICJhYiIsICJuZXh0UGFnZVBhcmFtZXRlcnMiOiB7fX0=''"

text \<open>A response with paging parameters and no link.\<close>

definition linkless_response :: "wire_request search_documents_result" where
  "linkless_response =
     \<lparr> next_link = None, next_page_parameters = Some [(''skip'', JInt 50)], results = [] \<rparr>"

text \<open>The JSON object that \<open>pack_continuation_token\<close> encodes for a response.\<close>

definition token_object :: "('req \<Rightarrow> json) \<Rightarrow> 'req search_documents_result \<Rightarrow> 'req \<Rightarrow> json" where
  "token_object serialize response params =
     JObject [(''apiVersion'', JStr api_version),
              (''nextLink'', json_of_link (next_link response)),
              (''nextPageParameters'', serialize params)]"

text \<open>What kind of object a token is.\<close>

fun is_str :: "pyval \<Rightarrow> bool" where
  "is_str (PStr s) = True"
| "is_str _ = False"

fun is_bytes :: "pyval \<Rightarrow> bool" where
  "is_bytes (PBytes b) = True"
| "is_bytes _ = False"

subsection \<open>Facts about dictionaries\<close>

lemma map_of_setitem: "map_of (setitem k v d) = (map_of d)(k \<mapsto> v)"
  by (induction d) (auto simp: fun_eq_iff)

lemma keys_setitem: "fst ` set (setitem k v d) = insert k (fst ` set d)"
proof (induction d)
  case Nil
  show ?case by simp
next
  case (Cons p d)
  obtain k' v' where p: "p = (k', v')" by (cases p)
  show ?case
  proof (cases "k' = k")
    case True
    then show ?thesis by (simp add: p)
  next
    case False
    then show ?thesis using Cons.IH by (simp add: p insert_commute)
  qed
qed

lemma distinct_setitem: "distinct (map fst d) \<Longrightarrow> distinct (map fst (setitem k v d))"
proof (induction d)
  case Nil
  show ?case by simp
next
  case (Cons p d)
  obtain k' v' where p: "p = (k', v')" by (cases p)
  from Cons.prems have d: "distinct (map fst d)" and k': "k' \<notin> fst ` set d"
    by (simp_all add: p)
  show ?case
  proof (cases "k' = k")
    case True
    then show ?thesis using d k' by (simp add: p)
  next
    case False
    then show ?thesis using Cons.IH [OF d] k' keys_setitem [of k v d]
      by (simp add: p)
  qed
qed

lemma convert_search_result_ret:
  "additional_properties r = Some a \<Longrightarrow> fst (convert_search_result st r) = Inr a"
  by (simp add: convert_search_result_def Let_def)

lemma convert_search_result_bag:
  "additional_properties r = Some a \<Longrightarrow>
   snd (convert_search_result st r) a =
     setitem ''@search.highlights'' (py_of_highlights (highlights r))
       (setitem ''@search.score'' (py_of_score (score r)) (st a))"
  by (simp add: convert_search_result_def Let_def)

lemma convert_search_result_frame:
  "additional_properties r = Some a \<Longrightarrow> b \<noteq> a \<Longrightarrow>
   snd (convert_search_result st r) b = st b"
  by (simp add: convert_search_result_def Let_def)

lemma convert_search_result_no_bag:
  "additional_properties r = None \<Longrightarrow> convert_search_result st r = (Inl TypeError, st)"
  by (simp add: convert_search_result_def)

subsection \<open>Claims about the adapter\<close>

text \<open>
  C5, as stated, fails: the adapter returns the field bag itself and writes into it.
  On the example row the bag at the row's address is different after the call, and
  the reference returned is the row's own.
\<close>

theorem C5_convert_mutates_input:
  "additional_properties example_row = Some 0
   \<and> snd (convert_search_result example_store example_row) 0 \<noteq> example_store 0
   \<and> fst (convert_search_result example_store example_row) = Inr 0"
  by (simp add: convert_search_result_def example_store_def example_row_def Let_def)

text \<open>
  C5, amended: for a row that has a field bag, the adapter returns the row's own
  field-bag object (an alias, not a copy) after assigning the two reserved keys on
  it in place; every other dictionary of the store is left as it was, and a later
  assignment through the returned reference is an assignment on the row's field bag.
\<close>

theorem C5_convert_aliases_field_bag:
  "additional_properties r = Some a \<longrightarrow>
     fst (convert_search_result st r) = Inr a
   \<and> map_of (snd (convert_search_result st r) a) =
       (map_of (st a))
         (''@search.score'' \<mapsto> py_of_score (score r),
          ''@search.highlights'' \<mapsto> py_of_highlights (highlights r))
   \<and> (\<forall>b. b \<noteq> a \<longrightarrow> snd (convert_search_result st r) b = st b)
   \<and> (\<forall>ret. fst (convert_search_result st r) = Inr ret \<longrightarrow>
         ((snd (convert_search_result st r))(ret := d)) a = d)"
  by (simp add: convert_search_result_ret convert_search_result_bag
      convert_search_result_frame map_of_setitem)

theorem C5_convert_aliases_field_bag_witness:
  "additional_properties example_row = Some 0
   \<and> fst (convert_search_result example_store example_row) = Inr 0
   \<and> snd (convert_search_result example_store example_row) 1 = example_store 1
   \<and> map_of (snd (convert_search_result example_store example_row) 0) ''id'' = Some (PStr ''1'')
   \<and> map_of (snd (convert_search_result example_store example_row) 0) ''@search.score''
       = Some (PFloat 3.5)"
proof -
  have bag: "additional_properties example_row = Some 0"
    by (simp add: example_row_def)
  have "(1::nat) \<noteq> 0" by simp
  with C5_convert_aliases_field_bag [of example_row 0 example_store] bag
  show ?thesis
    by (simp add: example_row_def example_store_def py_of_score_def)
qed







subsection \<open>The OData helper\<close>

lemma dict_get_setitem:
  "dict_get (setitem k v d) k' = (if k' = k then v else dict_get d k')"
  by (simp add: dict_get_def map_of_setitem)

lemma map_of_odata_step:
  "map_of (odata_step statement kw k) k' =
     (if k' = k then map_option (odata_entry statement k) (map_of kw k) else map_of kw k')"
proof (cases "map_of kw k")
  case None
  then show ?thesis
    by (simp add: odata_step_def dict_get_def)
next
  case (Some v)
  then show ?thesis
    by (cases v) (simp_all add: odata_step_def dict_get_def odata_entry_def Let_def map_of_setitem)
qed

lemma map_of_odata_loop:
  "distinct ks \<Longrightarrow>
   map_of (foldl (odata_step statement) kw ks) k' =
     (if k' \<in> set ks then map_option (odata_entry statement k') (map_of kw k') else map_of kw k')"
proof (induction ks arbitrary: kw)
  case Nil
  show ?case by simp
next
  case (Cons k ks)
  from Cons.prems have d: "distinct ks" and k: "k \<notin> set ks" by simp_all
  show ?case
    using Cons.IH [OF d, of "odata_step statement kw k"] k
    by (auto simp: map_of_odata_step)
qed

text \<open>
  With distinct keyword names, the dictionary handed to \<open>format\<close> holds, under each
  key, the quoted and escaped text when the statement does not quote the
  placeholder, and the caller's text as it came when it does.
\<close>

lemma map_of_odata_kw:
  assumes "distinct (map fst kwargs)"
  shows "map_of (odata_kw statement kwargs) key =
           map_option (odata_entry statement key) (map_of kwargs key)"
proof (cases "map_of kwargs key")
  case None
  then have "key \<notin> set (map fst kwargs)"
    by (simp add: map_of_eq_None_iff)
  then show ?thesis
    using None map_of_odata_loop [OF assms, of statement kwargs key]
    by (simp add: odata_kw_def)
next
  case (Some v)
  then have "key \<in> set (map fst kwargs)"
    by (metis map_of_eq_None_iff option.distinct(1) set_map)
  then show ?thesis
    using map_of_odata_loop [OF assms, of statement kwargs key]
    by (simp add: odata_kw_def)
qed

text \<open>The example of the docstring.\<close>

lemma odata_docstring_example:
  "odata ''name eq {name} and age eq {age}'' [(''name'', PStr ''O'Neil''), (''age'', PInt 37)]
     = Inr (''name eq 'O'' @ [quote, quote] @ ''Neil' and age eq 37'')"
  by code_simp

text \<open>
  C9 at a statement that quotes its placeholder, \<open>odata("name eq '{name}'",
  name="O'Neil")\<close>: the escaped text is computed and then not stored, and the result
  is \<open>name eq 'O'Neil'\<close>, with the single quote of the value not doubled.
\<close>

theorem C9_odata_quoted_placeholder_unescaped:
  "odata (''name eq '' @ [quote] @ ''{name}'' @ [quote]) [(''name'', PStr ''O'Neil'')]
     = Inr (''name eq '' @ [quote] @ ''O'Neil'' @ [quote])"
  by code_simp

subsection \<open>The client facade\<close>

lemma headers_with_merged_headers:
  "dict_get (with_merged_headers mch kwargs) ''headers'' = mch (dict_get kwargs ''headers'')"
  by (simp add: with_merged_headers_def dict_get_setitem)

text \<open>
  The operations that pass \<open>**kwargs\<close> on hand the merged headers to the transport.
\<close>

lemma suggest_carries_headers:
  "suggest mch (QSuggestQuery request) kwargs calls =
     (Inr (), calls @ [SuggestPost request (with_merged_headers mch kwargs)])"
  by (simp add: suggest_def)

lemma autocomplete_carries_headers:
  "autocomplete mch (QAutocompleteQuery request) kwargs calls =
     (Inr (), calls @ [AutocompletePost request (with_merged_headers mch kwargs)])"
  by (simp add: autocomplete_def)

lemma get_document_count_carries_headers:
  "get_document_count mch kwargs calls = (Inr (), calls @ [Count (with_merged_headers mch kwargs)])"
  by (simp add: get_document_count_def)

lemma get_document_carries_headers:
  "get_document mch key selected_fields kwargs calls =
     (Inr (), calls @ [Get key selected_fields (with_merged_headers mch kwargs)])"
  by (simp add: get_document_def)

lemma index_documents_carries_headers:
  "index_documents mch b kwargs calls = (Inr (), calls @ [Index b (with_merged_headers mch kwargs)])"
  by (simp add: index_documents_def)

lemma upload_documents_carries_headers:
  "upload_documents mch documents kwargs calls =
     (Inr (), calls @ [Index (map (\<lambda>d. (''upload'', d)) documents)
                        (with_merged_headers mch (with_merged_headers mch kwargs))])"
  by (simp add: upload_documents_def index_documents_def add_actions_def)

text \<open>
  \<open>search\<close> never hands a \<open>headers\<close> keyword to the transport, whatever the merge
  function and the caller's keyword arguments are.
\<close>

lemma search_call_has_no_headers:
  "snd (search mch query kwargs calls) = calls
   \<or> (\<exists>request. snd (search mch query kwargs calls) = calls @ [SearchPost request search_post_kwargs])"
  by (cases query) (simp_all add: search_def)

lemma search_post_kwargs_no_headers: "map_of search_post_kwargs ''headers'' = None"
  by (simp add: search_post_kwargs_def)

text \<open>
  C7 at \<open>search("hotel", headers={"x-ms-client-request-id": "abc"})\<close>: the one
  transport call made carries no \<open>headers\<close> keyword at all, while \<open>suggest\<close> with the
  same keyword arguments hands over the caller's header merged with the defaults.
\<close>

theorem C7_search_drops_headers:
  "search (merge_client_headers example_defaults) (QStr ''hotel'') example_kwargs []
     = (Inr (), [SearchPost [(''search_text'', PStr ''hotel'')] search_post_kwargs])
   \<and> map_of (call_kwargs (SearchPost [(''search_text'', PStr ''hotel'')] search_post_kwargs))
         ''headers'' = None
   \<and> suggest (merge_client_headers example_defaults)
         (QSuggestQuery [(''search_text'', PStr ''hot'')]) example_kwargs []
     = (Inr (), [SuggestPost [(''search_text'', PStr ''hot'')]
          [(''headers'', PDict [(''api-key'', PStr ''secret''),
                               (''Accept'', PStr ''application/json;odata.metadata=none''),
                               (''x-ms-client-request-id'', PStr ''abc'')])]])"
  by (simp add: search_def suggest_def SearchQuery_def search_post_kwargs_def
      with_merged_headers_def merge_client_headers_def example_defaults_def
      example_kwargs_def dict_get_def)

text \<open>
  C8: \<open>search\<close> wraps a plain string into a query holding the search text only, uses
  a \<open>SearchQuery\<close> as it is, and for any other argument raises \<open>TypeError\<close> with the
  transport log left as it was.
\<close>

theorem C8_search_type_guard:
  "search mch (QStr s) kwargs calls =
     (Inr (), calls @ [SearchPost (SearchQuery s) search_post_kwargs])
   \<and> SearchQuery s = [(''search_text'', PStr s)]
   \<and> search mch (QSearchQuery request) kwargs calls =
     (Inr (), calls @ [SearchPost request search_post_kwargs])
   \<and> ((\<forall>t. query \<noteq> QStr t) \<and> (\<forall>r. query \<noteq> QSearchQuery r) \<longrightarrow>
        search mch query kwargs calls = (Inl TypeError, calls))"
  by (cases query) (simp_all add: search_def SearchQuery_def)

theorem C8_search_type_guard_witness:
  "(\<forall>t. QOther (PInt 5) \<noteq> QStr t) \<and> (\<forall>r. QOther (PInt 5) \<noteq> QSearchQuery r)
   \<and> search (merge_client_headers example_defaults) (QOther (PInt 5)) example_kwargs []
       = (Inl TypeError, [])
   \<and> search (merge_client_headers example_defaults) (QStr ''hotel'') example_kwargs [] =
       (Inr (), [SearchPost [(''search_text'', PStr ''hotel'')] search_post_kwargs])"
  using C8_search_type_guard [of "merge_client_headers example_defaults" "''hotel''"
      example_kwargs "[]" "[]" "QOther (PInt 5)"]
  by simp

subsection \<open>The codec on concrete tokens\<close>

lemma pack_example_response:
  "pack_continuation_token wire_serialize example_response = Inr (Some example_token)"
  by code_simp

lemma pack_short_link_response:
  "pack_continuation_token wire_serialize short_link_response = Inr (Some short_link_token)"
  by code_simp

lemma pack_last_response:
  "pack_continuation_token wire_serialize last_response = Inr None"
  by code_simp

lemma unpack_example_token:
  "unpack_continuation_token wire_deserialize example_token = Inr (PStr ''https://svc/next'')"
  by code_simp

lemma unpack_short_link_token:
  "unpack_continuation_token wire_deserialize short_link_token = Inr (PStr ''ab'')"
  by code_simp

lemma unpack_next_link_example_token:
  "unpack_next_link wire_deserialize example_token = Inl ValueError"
  by code_simp

lemma unpack_next_link_short_link_token:
  "unpack_next_link wire_deserialize short_link_token = Inr (PStr ''a'')"
  by code_simp




text \<open>
  C1 at the response with next link \<open>https://svc/next\<close> and paging parameters
  \<open>{"search": "hotel", "skip": 50}\<close>: decoding its token gives the link as a bare
  string. The paging parameters are deserialized and dropped; no pair is returned.
\<close>

theorem C1_unpack_returns_link_only:
  "pack_continuation_token wire_serialize example_response = Inr (Some example_token)
   \<and> unpack_continuation_token wire_deserialize example_token = Inr (PStr ''https://svc/next'')"
  by (simp add: pack_example_response unpack_example_token)

text \<open>
  C2 on the same token: the callback \<open>_unpack_next_link\<close> unpacks the string that
  \<open>unpack_continuation_token\<close> returns into two names and raises \<open>ValueError\<close>. When
  the link has exactly two characters the unpacking goes through and the callback
  returns the first character, not the link.
\<close>

theorem C2_unpack_next_link_fails:
  "unpack_next_link wire_deserialize example_token = Inl ValueError
   \<and> pack_continuation_token wire_serialize short_link_response = Inr (Some short_link_token)
   \<and> unpack_next_link wire_deserialize short_link_token = Inr (PStr ''a'')"
  by (simp add: unpack_next_link_example_token unpack_next_link_short_link_token
      pack_short_link_response)


subsection \<open>Base 64 decodes what it encoded\<close>

lemma b64_table: "map b64_index b64_alphabet = map Some [0..<64]"
  by code_simp

lemma b64_alphabet_length: "length b64_alphabet = 64"
  by (simp add: b64_alphabet_def)

lemma b64_alphabet_no_pad: "CHR ''='' \<notin> set b64_alphabet"
  by (simp add: b64_alphabet_def)

lemma b64_index_char:
  assumes "n < 64"
  shows "b64_index (b64_char n) = Some n"
proof -
  have "b64_index (b64_alphabet ! n) = map b64_index b64_alphabet ! n"
    using assms by (simp add: b64_alphabet_length)
  also have "\<dots> = Some n"
    using assms by (simp add: b64_table)
  finally show ?thesis
    using assms by (simp add: b64_char_def)
qed

lemma b64_char_not_pad:
  assumes "n < 64"
  shows "b64_char n \<noteq> CHR ''=''"
proof -
  have "b64_alphabet ! n \<in> set b64_alphabet"
    using assms by (simp add: b64_alphabet_length)
  then show ?thesis
    using assms b64_alphabet_no_pad by (auto simp: b64_char_def)
qed

lemma a2b_data_char:
  "n < 64 \<Longrightarrow> a2b_base64 q l p out (b64_char n # cs) =
     (if q = 0 then a2b_base64 1 n 0 out cs
      else if q = 1 then a2b_base64 2 (n mod 16) 0 (out @ [byte (l * 4 + n div 16)]) cs
      else if q = 2 then a2b_base64 3 (n mod 4) 0 (out @ [byte (l * 16 + n div 4)]) cs
      else a2b_base64 0 0 0 (out @ [byte (l * 64 + n)]) cs)"
  by (simp add: b64_index_char b64_char_not_pad)

lemma byte_of_char: "byte (of_char c) = c"
  by (simp add: byte_def)

lemma of_char_lt: "(of_char c :: nat) < 256"
  using of_char_mod_256 [of c, where ?'a = nat]
  by (metis mod_less_divisor zero_less_numeral)

lemma sextet_bounds:
  fixes a b :: nat
  shows "a < 256 \<Longrightarrow> a div 4 < 64"
    and "b < 256 \<Longrightarrow> (a mod 4) * 16 + b div 16 < 64"
    and "b < 256 \<Longrightarrow> (a mod 16) * 4 + b div 64 < 64"
    and "a mod 64 < 64"
    and "(a mod 4) * 16 < 64"
    and "(a mod 16) * 4 < 64"
  by simp_all


lemma sextet_join1:
  fixes a b :: nat
  shows "b < 256 \<Longrightarrow> (a div 4) * 4 + ((a mod 4) * 16 + b div 16) div 16 = a"
  by (simp add: div_add1_eq)

lemma sextet_join2:
  fixes a b c :: nat
  shows "b < 256 \<Longrightarrow> c < 256 \<Longrightarrow>
         (((a mod 4) * 16 + b div 16) mod 16) * 16 + ((b mod 16) * 4 + c div 64) div 4 = b"
  by (simp add: div_add1_eq mod_add_eq)

lemma sextet_join3:
  fixes b c :: nat
  shows "c < 256 \<Longrightarrow> (((b mod 16) * 4 + c div 64) mod 4) * 64 + c mod 64 = c"
  by (simp add: mod_add_eq)


lemma decode_group:
  "a2b_base64 0 l p out
     (b64_char (of_char a div 4) # b64_char ((of_char a mod 4) * 16 + of_char b div 16) #
      b64_char ((of_char b mod 16) * 4 + of_char c div 64) # b64_char (of_char c mod 64) # cs)
   = a2b_base64 0 0 0 (out @ [a, b, c]) cs"
proof -
  have a: "byte ((of_char a div 4) * 4 + ((of_char a mod 4) * 16 + of_char b div 16) div 16) = a"
    by (simp only: sextet_join1 [OF of_char_lt] byte_of_char)
  have b: "byte ((((of_char a mod 4) * 16 + of_char b div 16) mod 16) * 16
              + ((of_char b mod 16) * 4 + of_char c div 64) div 4) = b"
    by (simp only: sextet_join2 [OF of_char_lt of_char_lt] byte_of_char)
  have c: "byte ((((of_char b mod 16) * 4 + of_char c div 64) mod 4) * 64 + of_char c mod 64) = c"
    by (simp only: sextet_join3 [OF of_char_lt] byte_of_char)
  show ?thesis
    by (simp only: a2b_data_char sextet_bounds of_char_lt a b c append_assoc append_Cons
        append_Nil if_True if_False refl one_neq_zero zero_neq_one numeral_eq_one_iff
        one_eq_numeral_iff zero_neq_numeral numeral_eq_iff semiring_norm)
qed


lemma sextet_tail1:
  fixes a :: nat
  shows "(a div 4) * 4 + ((a mod 4) * 16) div 16 = a"
  by simp

lemma sextet_tail2:
  fixes a b :: nat
  shows "b < 256 \<Longrightarrow>
         (((a mod 4) * 16 + b div 16) mod 16) * 16 + ((b mod 16) * 4) div 4 = b"
  by (simp add: mod_add_eq)

lemma decode_tail1:
  "a2b_base64 0 l p out
     [b64_char (of_char a div 4), b64_char ((of_char a mod 4) * 16), CHR ''='', CHR ''='']
   = Inr (out @ [a])"
proof -
  have a: "byte ((of_char a div 4) * 4 + ((of_char a mod 4) * 16) div 16) = a"
    by (simp only: sextet_tail1 byte_of_char)
  have "a2b_base64 0 l p out
     [b64_char (of_char a div 4), b64_char ((of_char a mod 4) * 16), CHR ''='', CHR ''='']
     = a2b_base64 2 (((of_char a mod 4) * 16) mod 16) 0 (out @ [a]) [CHR ''='', CHR ''='']"
    by (simp only: a2b_data_char sextet_bounds of_char_lt a if_True if_False refl
        one_neq_zero zero_neq_one)
  also have "\<dots> = Inr (out @ [a])"
    by simp
  finally show ?thesis .
qed

lemma decode_tail2:
  "a2b_base64 0 l p out
     [b64_char (of_char a div 4), b64_char ((of_char a mod 4) * 16 + of_char b div 16),
      b64_char ((of_char b mod 16) * 4), CHR ''='']
   = Inr (out @ [a, b])"
proof -
  have a: "byte ((of_char a div 4) * 4 + ((of_char a mod 4) * 16 + of_char b div 16) div 16) = a"
    by (simp only: sextet_join1 [OF of_char_lt] byte_of_char)
  have b: "byte ((((of_char a mod 4) * 16 + of_char b div 16) mod 16) * 16
              + ((of_char b mod 16) * 4) div 4) = b"
    by (simp only: sextet_tail2 [OF of_char_lt] byte_of_char)
  have "a2b_base64 0 l p out
     [b64_char (of_char a div 4), b64_char ((of_char a mod 4) * 16 + of_char b div 16),
      b64_char ((of_char b mod 16) * 4), CHR ''='']
     = a2b_base64 3 (((of_char b mod 16) * 4) mod 4) 0 (out @ [a, b]) [CHR ''='']"
    by (simp only: a2b_data_char sextet_bounds of_char_lt a b if_True if_False refl
        one_neq_zero zero_neq_one append_assoc append_Cons append_Nil
        numeral_eq_one_iff one_eq_numeral_iff zero_neq_numeral numeral_eq_iff semiring_norm)
  also have "\<dots> = Inr (out @ [a, b])"
    by simp
  finally show ?thesis .
qed

lemma a2b_base64_b64encode: "a2b_base64 0 l p out (b64encode bs) = Inr (out @ bs)"
proof (induction bs arbitrary: l p out rule: b64encode.induct)
  case 1
  show ?case by simp
next
  case (2 a)
  show ?case by (simp only: b64encode.simps decode_tail1)
next
  case (3 a b)
  show ?case by (simp only: b64encode.simps decode_tail2)
next
  case (4 a b c bs)
  show ?case
    by (simp only: b64encode.simps append_Cons append_Nil decode_group "4.IH" append_assoc)
qed

lemma b64decode_b64encode: "b64decode (PBytes (b64encode bs)) = Inr bs"
  by (simp add: a2b_base64_b64encode)

subsection \<open>The text of \<open>json.dumps\<close> is within ASCII\<close>

lemma ascii_only_append: "ascii_only (s @ t) = (ascii_only s \<and> ascii_only t)"
  by (simp add: ascii_only_def)

lemma ascii_only_Cons: "ascii_only (c # s) = ((of_char c :: nat) < 128 \<and> ascii_only s)"
  by (simp add: ascii_only_def)

lemma ascii_only_Nil: "ascii_only []"
  by (simp add: ascii_only_def)

lemma ascii_hex_digit: "d < 16 \<Longrightarrow> (of_char (hex_digit d) :: nat) < 128"
  by (simp add: hex_digit_def)

lemma ascii_hex4: "ascii_only (hex4 n)"
  by (simp add: hex4_def ascii_only_Cons ascii_only_Nil ascii_hex_digit)

lemma ascii_escape_char: "(of_char c :: nat) < 128 \<Longrightarrow> ascii_only (json_escape_char c)"
  by (simp add: json_escape_char_def ascii_only_Cons ascii_only_Nil ascii_hex4 dquote_def
      backslash_def del: of_char_eq_iff)

lemma ascii_escape_code_point: "ascii_only (escape_code_point cp)"
  by (simp add: escape_code_point_def ascii_only_Cons ascii_only_append ascii_hex4 backslash_def)

lemma ascii_json_escape: "ascii_only (json_escape s)"
  by (induction s rule: json_escape.induct)
    (simp_all add: ascii_only_Nil ascii_only_append ascii_escape_char ascii_escape_code_point)

lemma ascii_string: "ascii_only (json_string s)"
  by (simp add: json_string_def ascii_only_append ascii_only_Cons ascii_only_Nil
      ascii_json_escape dquote_def)

lemma ascii_digit_char: "d < 10 \<Longrightarrow> (of_char (digit_char d) :: nat) < 128"
  by (simp add: digit_char_def)

lemma ascii_str_nat: "ascii_only (str_nat n)"
proof (induction n rule: str_nat.induct)
  case (1 n)
  show ?case
  proof (cases "n < 10")
    case True
    then show ?thesis
      using ascii_digit_char [of n]
      by (subst str_nat.simps) (simp add: ascii_only_Cons ascii_only_Nil)
  next
    case False
    then show ?thesis
      using "1.IH" ascii_digit_char [of "n mod 10"]
      by (subst str_nat.simps) (simp add: ascii_only_append ascii_only_Cons ascii_only_Nil)
  qed
qed

lemma ascii_str_int: "ascii_only (str_int i)"
  by (simp add: str_int_def ascii_only_Cons ascii_str_nat)

lemma ascii_digits: "ascii_only (digits ds)"
  by (induction ds) (simp_all add: digits_def ascii_only_Cons ascii_only_Nil ascii_digit_char)

lemma ascii_float_text: "ascii_only (float_text f)"
  by (cases f)
    (simp_all add: ascii_only_append ascii_only_Cons ascii_only_Nil ascii_str_nat ascii_digits)

lemma ascii_json_text:
  shows "ascii_only (json_text v)"
    and "ascii_only (json_items xs)"
    and "ascii_only (json_members kvs)"
  by (induction v and xs and kvs rule: json_text_json_items_json_members.induct)
    (simp_all add: ascii_only_append ascii_only_Cons ascii_only_Nil ascii_string ascii_str_int
      ascii_float_text)

text \<open>So the text can always be encoded, and its bytes are the text.\<close>

lemma ascii_no_surrogate: "ascii_only s \<Longrightarrow> \<not> has_surrogate s"
  by (induction s rule: has_surrogate.induct) (auto simp add: ascii_only_Cons)

lemma encode_utf8_json_text: "encode_utf8 (json_text v) = Inr (json_text v)"
  by (simp add: encode_utf8_def ascii_no_surrogate ascii_json_text)

subsection \<open>The errors of decoding\<close>














lemma getitem_error:
  "getitem v k = Inl e \<Longrightarrow>
     (\<forall>kvs. v \<noteq> PDict kvs) \<and> e = TypeError
     \<or> (\<exists>kvs. v = PDict kvs \<and> map_of kvs k = None \<and> e = KeyError k)"
  by (cases v) (auto split: option.splits)

lemma getitem_value:
  "getitem v k = Inr x \<Longrightarrow> \<exists>kvs. v = PDict kvs \<and> map_of kvs k = Some x"
  by (cases v) (auto split: option.splits)















lemma decode_no_link_token:
  "b64decode (PBytes ''eyJhIjogMX0='') = Inr (json_text (JObject [(''a'', JInt 1)]))"
  by code_simp

lemma loads_no_link:
  "json_loads (json_text (JObject [(''a'', JInt 1)])) = Inr (PDict [(''a'', PInt 1)])"
  by code_simp






subsection \<open>Encoding a response\<close>

lemma pack_without_paging_data:
  "next_page_parameters r = None \<Longrightarrow> pack_continuation_token s r = Inr None"
  by (simp add: pack_continuation_token_def)

lemma pack_with_paging_data:
  "next_page_parameters r = Some p \<Longrightarrow>
   pack_continuation_token s r = Inr (Some (PBytes (b64encode (json_text (token_object s r p)))))"
  by (simp add: pack_continuation_token_def json_dumps_def token_object_def
      encode_utf8_json_text del: json_text.simps)

lemma pack_token_needs_paging_data:
  "pack_continuation_token s r = Inr (Some tok) \<Longrightarrow> next_page_parameters r \<noteq> None"
  by (cases "next_page_parameters r") (simp_all add: pack_continuation_token_def)

lemma pack_token_is_bytes:
  "pack_continuation_token s r = Inr (Some tok) \<Longrightarrow> is_bytes tok"
  by (cases "next_page_parameters r") (auto simp add: pack_with_paging_data pack_without_paging_data)

lemma pack_never_fails: "pack_continuation_token s r \<noteq> Inl e"
  by (cases "next_page_parameters r") (simp_all add: pack_with_paging_data pack_without_paging_data)

text \<open>
  The callback \<open>_extract_data_cb\<close> returns the token of the response together with
  its rows, each adapted in place: when every row has a field bag, the references
  returned are the rows' own field bags, in the order of the response.
\<close>

lemma convert_all_refs:
  "map additional_properties rs = map Some refs \<Longrightarrow> fst (convert_all st rs) = Inr refs"
proof (induction rs arbitrary: st refs)
  case Nil
  then show ?case by simp
next
  case (Cons r rs)
  from Cons.prems obtain a refs' where refs: "refs = a # refs'"
    and a: "additional_properties r = Some a"
    and rest: "map additional_properties rs = map Some refs'"
    by (cases refs) auto
  obtain st' where c: "convert_search_result st r = (Inr a, st')"
    using convert_search_result_ret [OF a, of st]
    by (cases "convert_search_result st r") auto
  obtain st'' where cs: "convert_all st' rs = (Inr refs', st'')"
    using Cons.IH [OF rest, of st']
    by (cases "convert_all st' rs") auto
  show ?case
    by (simp add: c cs refs)
qed

lemma extract_data_cb_result:
  assumes "pack_continuation_token serialize response = Inr token"
    and "map additional_properties (results response) = map Some refs"
  shows "fst (extract_data_cb serialize st response) = Inr (token, refs)"
proof -
  obtain st' where c: "convert_all st (results response) = (Inr refs, st')"
    using convert_all_refs [OF assms(2), of st]
    by (cases "convert_all st (results response)") auto
  show ?thesis
    by (simp add: extract_data_cb_def assms(1) c)
qed

subsection \<open>The token of every response\<close>

lemma pack_linkless_response:
  "pack_continuation_token wire_serialize linkless_response
     = Inr (Some (PBytes (b64encode (json_text
         (JObject [(''apiVersion'', JStr ''2019-05-06-Preview''),
                   (''nextLink'', JNull),
                   (''nextPageParameters'', JObject [(''skip'', JInt 50)])])))))"
  by code_simp

text \<open>
  C4, as stated, fails on two points. The token of \<open>example_response\<close> is a \<open>bytes\<close>
  object, not a string: \<open>base64.b64encode\<close> returns \<open>bytes\<close> and the code does not
  decode them. And for a response with paging parameters and no link the entry
  \<open>nextLink\<close> is \<open>null\<close>, not a string.
\<close>

theorem C4_token_is_bytes_and_link_may_be_null:
  "pack_continuation_token wire_serialize example_response = Inr (Some example_token)
   \<and> is_bytes example_token
   \<and> \<not> is_str example_token
   \<and> next_link linkless_response = None
   \<and> pack_continuation_token wire_serialize linkless_response
       = Inr (Some (PBytes (b64encode (json_text
           (JObject [(''apiVersion'', JStr ''2019-05-06-Preview''),
                     (''nextLink'', JNull),
                     (''nextPageParameters'', JObject [(''skip'', JInt 50)])])))))"
  by (simp add: pack_example_response pack_linkless_response del: json_text.simps)
    (simp add: example_token_def linkless_response_def)

text \<open>
  C4, amended: \<open>pack_continuation_token\<close> never fails; it returns \<open>None\<close> when the
  response has no paging parameters and a token only when it has them. Every token
  is a \<open>bytes\<close> object: the base-64 encoding of the UTF-8 bytes of the text
  \<open>json.dumps\<close> writes for the object with the three entries \<open>apiVersion\<close> (the
  protocol-version string), \<open>nextLink\<close> (the link, or \<open>null\<close> when the response has
  none) and \<open>nextPageParameters\<close> (the serialized paging parameters), whatever the
  serialization holds. That text is within ASCII, so its bytes are the text, and
  \<open>base64.b64decode\<close> gives them back.
\<close>

theorem C4_pack_token_format:
  "(next_page_parameters r = None \<longrightarrow> pack_continuation_token serialize r = Inr None)
   \<and> (\<forall>token. pack_continuation_token serialize r = Inr (Some token) \<longrightarrow>
         next_page_parameters r \<noteq> None \<and> is_bytes token)
   \<and> (\<forall>p. next_page_parameters r = Some p \<longrightarrow>
        (\<exists>text.
            json_dumps (JObject [(''apiVersion'', JStr ''2019-05-06-Preview''),
                                 (''nextLink'', (case next_link r of None \<Rightarrow> JNull | Some l \<Rightarrow> JStr l)),
                                 (''nextPageParameters'', serialize p)]) = text
          \<and> encode_utf8 text = Inr text
          \<and> pack_continuation_token serialize r = Inr (Some (PBytes (b64encode text)))
          \<and> b64decode (PBytes (b64encode text)) = Inr text))"
proof (intro conjI allI impI)
  assume "next_page_parameters r = None"
  then show "pack_continuation_token serialize r = Inr None"
    by (rule pack_without_paging_data)
next
  fix token
  assume "pack_continuation_token serialize r = Inr (Some token)"
  then show "next_page_parameters r \<noteq> None"
    by (rule pack_token_needs_paging_data)
next
  fix token
  assume "pack_continuation_token serialize r = Inr (Some token)"
  then show "is_bytes token"
    by (rule pack_token_is_bytes)
next
  fix p
  assume p: "next_page_parameters r = Some p"
  let ?object = "JObject [(''apiVersion'', JStr ''2019-05-06-Preview''),
                          (''nextLink'', (case next_link r of None \<Rightarrow> JNull | Some l \<Rightarrow> JStr l)),
                          (''nextPageParameters'', serialize p)]"
  have object: "token_object serialize r p = ?object"
    by (simp add: token_object_def api_version_def json_of_link_def)
  have "json_dumps ?object = json_text ?object"
    by (simp only: json_dumps_def)
  moreover have "encode_utf8 (json_text ?object) = Inr (json_text ?object)"
    by (rule encode_utf8_json_text)
  moreover have "pack_continuation_token serialize r
                   = Inr (Some (PBytes (b64encode (json_text ?object))))"
    using pack_with_paging_data [where s = serialize and r = r and p = p] p
    by (simp only: object)
  moreover have "b64decode (PBytes (b64encode (json_text ?object))) = Inr (json_text ?object)"
    by (rule b64decode_b64encode)
  ultimately show "\<exists>text.
            json_dumps ?object = text
          \<and> encode_utf8 text = Inr text
          \<and> pack_continuation_token serialize r = Inr (Some (PBytes (b64encode text)))
          \<and> b64decode (PBytes (b64encode text)) = Inr text"
    by blast
qed

theorem C4_pack_token_format_witness:
  "next_page_parameters last_response = None
   \<and> pack_continuation_token wire_serialize last_response = Inr None
   \<and> pack_continuation_token wire_serialize example_response = Inr (Some example_token)
   \<and> is_bytes example_token
   \<and> next_page_parameters example_response
       = Some [(''search'', JStr ''hotel''), (''skip'', JInt 50)]
   \<and> (\<exists>text.
          json_dumps (JObject [(''apiVersion'', JStr ''2019-05-06-Preview''),
                               (''nextLink'', JStr ''https://svc/next''),
                               (''nextPageParameters'',
                                JObject [(''search'', JStr ''hotel''), (''skip'', JInt 50)])]) = text
        \<and> encode_utf8 text = Inr text
        \<and> pack_continuation_token wire_serialize example_response
            = Inr (Some (PBytes (b64encode text)))
        \<and> b64decode (PBytes (b64encode text)) = Inr text)"
proof -
  have none: "next_page_parameters last_response = None"
    by (simp add: last_response_def)
  have some: "next_page_parameters example_response
                = Some [(''search'', JStr ''hotel''), (''skip'', JInt 50)]"
    by (simp add: example_response_def)
  have link: "next_link example_response = Some ''https://svc/next''"
    by (simp add: example_response_def)
  have ws: "wire_serialize [(''search'', JStr ''hotel''), (''skip'', JInt 50)]
              = JObject [(''search'', JStr ''hotel''), (''skip'', JInt 50)]"
    by (simp add: wire_serialize_def)
  from C4_pack_token_format [of last_response wire_serialize] none
  have a: "pack_continuation_token wire_serialize last_response = Inr None"
    by blast
  from C4_pack_token_format [of example_response wire_serialize] pack_example_response
  have b: "is_bytes example_token"
    by blast
  from C4_pack_token_format [of example_response wire_serialize] some
  have c: "\<exists>text.
          json_dumps (JObject [(''apiVersion'', JStr ''2019-05-06-Preview''),
                               (''nextLink'', (case next_link example_response of
                                                 None \<Rightarrow> JNull | Some l \<Rightarrow> JStr l)),
                               (''nextPageParameters'',
                                wire_serialize [(''search'', JStr ''hotel''), (''skip'', JInt 50)])])
            = text
        \<and> encode_utf8 text = Inr text
        \<and> pack_continuation_token wire_serialize example_response
            = Inr (Some (PBytes (b64encode text)))
        \<and> b64decode (PBytes (b64encode text)) = Inr text"
    by blast
  have d: "\<exists>text.
          json_dumps (JObject [(''apiVersion'', JStr ''2019-05-06-Preview''),
                               (''nextLink'', JStr ''https://svc/next''),
                               (''nextPageParameters'',
                                JObject [(''search'', JStr ''hotel''), (''skip'', JInt 50)])]) = text
        \<and> encode_utf8 text = Inr text
        \<and> pack_continuation_token wire_serialize example_response
            = Inr (Some (PBytes (b64encode text)))
        \<and> b64decode (PBytes (b64encode text)) = Inr text"
    using c unfolding link ws by simp
  show ?thesis
    using none a pack_example_response b some d by blast
qed

end
